theory Spec2Isabelle
  imports Complex_Main "HOL-Library.Sublist"
begin

section \<open>Action segment detection of \<open>processor.py\<close>\<close>

text \<open>
  The development embeds the segment detector of \<open>VideoProcessor\<close>
  (\<open>src/AI-Clipping-Project/processor.py\<close>): the sampling loop, the min-max
  normalisation, the sliding-window thresholding with its duration clamp, the overlap
  resolver, the remote strategy and the orchestrating \<open>detect_high_action_segments\<close>.

  Conventions of the embedding.
  \<^item> A Python float is a \<open>real\<close>, the value it denotes. The floating-point operations
    round, so they are not the operations of \<open>real\<close>: they are the fields of a record
    \<open>arith\<close> that every function of the pipeline receives, and the theorems hold for every
    such record. Infinities and NaN are outside the model.
  \<^item> A Python call that may raise returns \<open>error + 'a\<close>, \<open>Inl\<close> being the exception;
    a \<open>try\<close>/\<open>except Exception\<close> is a case distinction on that value.
  \<^item> The dictionaries of the source have a fixed set of string keys and are records. The
    key \<open>'end'\<close> is a keyword of Isabelle and the key \<open>'score'\<close> occurs both in motion
    samples and in segments, so the segment fields carry the prefix \<open>seg_\<close>.
  \<^item> Logging is omitted.
\<close>

subsection \<open>Exceptions\<close>

datatype error =
  ValueError | ZeroDivisionError | KeyError | TypeError | AttributeError | IndexError
  | JSONDecodeError | OSError | RequestException | Cv2Error | OverflowError

subsection \<open>Segments\<close>

text \<open>
  A segment is the dictionary with the keys \<open>'start'\<close>, \<open>'end'\<close>, \<open>'duration'\<close>,
  \<open>'score'\<close> and \<open>'confidence'\<close>. The local pipeline stores floats under the last two
  keys; the remote strategy stores whatever JSON value the response carries, so the type
  of these two fields is a parameter.
\<close>

record 'v segment =
  seg_start :: real
  seg_end :: real
  seg_duration :: real
  seg_score :: 'v
  seg_confidence :: 'v

subsection \<open>The overlap resolver: \<open>_remove_overlapping_segments\<close>\<close>

text \<open>The inner loop over \<open>non_overlapping\<close>, with its \<open>break\<close> at the first hit.\<close>

fun overlaps_existing :: "('v, 'm) segment_scheme \<Rightarrow> ('v, 'm) segment_scheme list \<Rightarrow> bool" where
  "overlaps_existing seg [] = False"
| "overlaps_existing seg (existing # rest) =
     (if \<not> (seg_end seg \<le> seg_start existing \<or> seg_start seg \<ge> seg_end existing)
      then True
      else overlaps_existing seg rest)"

text \<open>The outer loop; the second argument is the list \<open>non_overlapping\<close> built so far.\<close>

fun remove_overlapping_loop ::
  "('v, 'm) segment_scheme list \<Rightarrow> ('v, 'm) segment_scheme list \<Rightarrow> ('v, 'm) segment_scheme list" where
  "remove_overlapping_loop [] non_overlapping = non_overlapping"
| "remove_overlapping_loop (seg # segments) non_overlapping =
     (if \<not> overlaps_existing seg non_overlapping
      then remove_overlapping_loop segments (non_overlapping @ [seg])
      else remove_overlapping_loop segments non_overlapping)"

definition remove_overlapping_segments ::
  "('v, 'm) segment_scheme list \<Rightarrow> ('v, 'm) segment_scheme list" where
  "remove_overlapping_segments segments =
     (if segments = [] then [] else remove_overlapping_loop segments [])"

text \<open>
  The overlap test of the specification, on half-open intervals:
  \<open>A.end > B.start \<and> A.start < B.end\<close>.
\<close>

definition time_overlap :: "('v, 'm) segment_scheme \<Rightarrow> ('v, 'm) segment_scheme \<Rightarrow> bool" where
  "time_overlap A B \<longleftrightarrow> seg_end A > seg_start B \<and> seg_start A < seg_end B"

text \<open>No two segments at different positions of the sequence overlap.\<close>

fun no_two_overlap :: "('v, 'm) segment_scheme list \<Rightarrow> bool" where
  "no_two_overlap [] = True"
| "no_two_overlap (A # rest) = (list_all (\<lambda>B. \<not> time_overlap A B) rest \<and> no_two_overlap rest)"

subsection \<open>Configuration\<close>

text \<open>
  The module constants of \<open>config.py\<close> and the attributes that \<open>__init__\<close> copies
  from them. \<open>clipping_api_key\<close> is the value of \<open>os.getenv\<close>: \<open>None\<close> or a string.
\<close>

record config =
  frame_sample_rate :: int
  use_clipping_api :: bool
  clipping_api_key :: "string option"
  MIN_CLIP_LENGTH :: real
  MAX_CLIP_LENGTH :: real
  TARGET_CLIP_LENGTH :: int

text \<open>The values of \<open>config.py\<close> when the environment sets no remote strategy.\<close>

definition reference_config :: config where
  "reference_config =
      \<lparr>frame_sample_rate = 2, use_clipping_api = False, clipping_api_key = None,
      MIN_CLIP_LENGTH = 15, MAX_CLIP_LENGTH = 60, TARGET_CLIP_LENGTH = 30\<rparr>"

subsection \<open>Floating-point arithmetic\<close>

text \<open>
  The operations of Python floats and of numpy that the pipeline uses: \<open>+\<close>, \<open>-\<close>, \<open>*\<close>
  and \<open>/\<close> on floats, the conversion of an \<open>int\<close> operand to a float (which raises
  \<open>OverflowError\<close> when the integer is beyond the range of floats, \<open>None\<close> here), and
  \<open>np.mean\<close> and \<open>np.std\<close>. Their results are rounded, in a way that for numpy depends
  on its summation order, so they are parameters. The division is called with a
  divisor other than zero only; the callers raise \<open>ZeroDivisionError\<close> themselves.
  The small integers of the configuration and the frame indices convert to floats
  without rounding and are written with \<open>real_of_int\<close>.
\<close>

record arith =
  fadd :: "real \<Rightarrow> real \<Rightarrow> real"
  fsub :: "real \<Rightarrow> real \<Rightarrow> real"
  fmul :: "real \<Rightarrow> real \<Rightarrow> real"
  fdiv :: "real \<Rightarrow> real \<Rightarrow> real"
  int_to_float :: "int \<Rightarrow> real option"
  np_mean :: "real list \<Rightarrow> real"
  np_std :: "real list \<Rightarrow> real"

text \<open>
  The same operations without rounding: the arithmetic mean and the population standard
  deviation (\<open>ddof = 0\<close>). The floating-point operations return the exact result whenever
  it is a float, so on inputs where every intermediate result is a small integer or a
  dyadic fraction the program computes with \<open>exact_arith\<close>. The concrete inputs of this
  theory are of that kind.
\<close>

definition exact_mean :: "real list \<Rightarrow> real" where
  "exact_mean xs = sum_list xs / real (length xs)"

definition exact_std :: "real list \<Rightarrow> real" where
  "exact_std xs = sqrt (exact_mean (map (\<lambda>x. (x - exact_mean xs)\<^sup>2) xs))"

definition exact_arith :: arith where
  "exact_arith =
     \<lparr>fadd = (+), fsub = (-), fmul = (*), fdiv = (/),
      int_to_float = (\<lambda>n. Some (real_of_int n)),
      np_mean = exact_mean, np_std = exact_std\<rparr>"

subsection \<open>Python primitives\<close>

text \<open>\<open>max\<close> and \<open>min\<close> of a list raise \<open>ValueError\<close> on the empty list.\<close>

fun py_max :: "real list \<Rightarrow> error + real" where
  "py_max [] = Inl ValueError"
| "py_max (x # xs) = Inr (fold max xs x)"

fun py_min :: "real list \<Rightarrow> error + real" where
  "py_min [] = Inl ValueError"
| "py_min (x # xs) = Inr (fold min xs x)"

text \<open>\<open>int(x)\<close> of a float truncates towards zero.\<close>

definition py_int :: "real \<Rightarrow> int" where
  "py_int x = (if x \<ge> 0 then \<lfloor>x\<rfloor> else \<lceil>x\<rceil>)"

text \<open>
  \<open>range(start, stop, step)\<close>: \<open>ValueError\<close> for a zero step, otherwise the values
  \<open>start + k * step\<close> that lie before \<open>stop\<close> in the direction of the step.
\<close>

definition py_range :: "int \<Rightarrow> int \<Rightarrow> int \<Rightarrow> error + int list" where
  "py_range start stop step =
     (if step = 0 then Inl ValueError
      else if step > 0
      then Inr (map (\<lambda>k. start + int k * step) [0 ..< nat ((stop - start + step - 1) div step)])
      else Inr (map (\<lambda>k. start + int k * step) [0 ..< nat ((start - stop - step - 1) div (- step))]))"

text \<open>
  The slice \<open>xs[i:j]\<close>: a negative bound counts from the end, and both bounds are
  clipped to the list.
\<close>

definition py_slice :: "'a list \<Rightarrow> int \<Rightarrow> int \<Rightarrow> 'a list" where
  "py_slice xs i j =
     (let n = int (length xs);
          lo = (if i < 0 then max 0 (i + n) else min i n);
          hi = (if j < 0 then max 0 (j + n) else min j n)
      in take (nat (hi - lo)) (drop (nat lo) xs))"

text \<open>
  \<open>sorted(segments, key=lambda x: x['score'], reverse=True)\<close>: a stable sort by
  descending score (with \<open>reverse=True\<close> elements of equal key keep their order).
\<close>

definition sorted_by_score_desc :: "real segment list \<Rightarrow> real segment list" where
  "sorted_by_score_desc segments = sort_key (\<lambda>x. - seg_score x) segments"

subsection \<open>Motion samples and their normalisation\<close>

text \<open>
  The dictionary appended to \<open>motion_scores\<close>, and the same dictionary once the key
  \<open>'normalized_score'\<close> has been added to it.
\<close>

record motion_sample =
  frame :: int
  time :: real
  score :: real

record normalized_sample = motion_sample +
  normalized_score :: real

text \<open>
  Lines 192--198 of \<open>_detect_segments_with_motion\<close>. The subtraction and the division
  are written without rounding: what is proved of the normalised scores below (the
  range, the end points, the constant case) holds of the rounded results as well.
\<close>

definition normalize_scores :: "motion_sample list \<Rightarrow> error + normalized_sample list" where
  "normalize_scores motion_scores =
     (let scores = map score motion_scores in
      case py_max scores of Inl e \<Rightarrow> Inl e | Inr max_score \<Rightarrow>
      case py_min scores of Inl e \<Rightarrow> Inl e | Inr min_score \<Rightarrow>
      let score_range = (if max_score > min_score then max_score - min_score else 1)
      in Inr (map (\<lambda>m. \<lparr>frame = frame m, time = time m, score = score m,
                         normalized_score = (score m - min_score) / score_range\<rparr>)
                motion_scores))"

subsection \<open>The sliding window: \<open>_extract_segments_from_scores\<close>\<close>

text \<open>Lines 233--236: the threshold over the whole sequence.\<close>

definition score_threshold :: "arith \<Rightarrow> normalized_sample list \<Rightarrow> real" where
  "score_threshold ar motion_scores =
     (let normalized_scores = map normalized_score motion_scores;
          mean_score = np_mean ar normalized_scores;
          std_score = np_std ar normalized_scores
      in fadd ar mean_score (fmul ar std_score 0.5))"

text \<open>
  Lines 244--245. The division by \<open>frame_sample_rate\<close> is a float division and raises on
  zero; \<open>int\<close> truncates its rounded result.
\<close>

definition window_size :: "arith \<Rightarrow> config \<Rightarrow> real \<Rightarrow> int \<Rightarrow> error + int" where
  "window_size ar cfg rate segment_duration =
     (if frame_sample_rate cfg = 0 then Inl ZeroDivisionError
      else Inr (py_int (fdiv ar (fmul ar rate (real_of_int segment_duration))
                          (real_of_int (frame_sample_rate cfg)))))"

definition step_size :: "int \<Rightarrow> int" where
  "step_size ws = ws div 2"

text \<open>Line 247: the start indices of the windows that the loop evaluates.\<close>

definition window_starts :: "int \<Rightarrow> nat \<Rightarrow> error + int list" where
  "window_starts ws len = py_range 0 (int len - ws) (step_size ws)"

text \<open>
  Lines 248--254: the window at index \<open>i\<close>, its average and the comparison with the
  threshold. The result is the time span and the average of a window that passes. For an
  empty window \<open>np.mean\<close> is NaN and the comparison is false.
\<close>

definition window_candidate ::
  "arith \<Rightarrow> normalized_sample list \<Rightarrow> real \<Rightarrow> int \<Rightarrow> int \<Rightarrow> (real \<times> real \<times> real) option" where
  "window_candidate ar motion_scores threshold ws i =
     (let window = py_slice motion_scores i (i + ws) in
      if window = [] then None
      else let avg_score = np_mean ar (map normalized_score window) in
        if avg_score > threshold
        then Some (time (hd window), time (last window), avg_score)
        else None)"

text \<open>Lines 254--262: the extension of a window shorter than \<open>MIN_CLIP_LENGTH\<close>.\<close>

definition clamp_window ::
  "arith \<Rightarrow> config \<Rightarrow> normalized_sample list \<Rightarrow> real \<Rightarrow> real \<Rightarrow> real \<times> real \<times> real" where
  "clamp_window ar cfg motion_scores start_time end_time =
     (let duration = fsub ar end_time start_time in
      if duration < MIN_CLIP_LENGTH cfg
      then let extension = fdiv ar (fsub ar (MIN_CLIP_LENGTH cfg) duration) 2;
               start_time' = max 0 (fsub ar start_time extension);
               end_time' = min (time (last motion_scores)) (fadd ar end_time extension)
           in (start_time', end_time', fsub ar end_time' start_time')
      else (start_time, end_time, duration))"

text \<open>Lines 256--271: the segments (none or one) that a passing window appends.\<close>

definition clamp_candidate ::
  "arith \<Rightarrow> config \<Rightarrow> normalized_sample list \<Rightarrow> real \<times> real \<times> real \<Rightarrow> real segment list" where
  "clamp_candidate ar cfg motion_scores c =
     (case c of (start_time0, end_time0, avg_score) \<Rightarrow>
      case clamp_window ar cfg motion_scores start_time0 end_time0 of
        (start_time, end_time, duration) \<Rightarrow>
          if duration \<ge> MIN_CLIP_LENGTH cfg \<and> duration \<le> MAX_CLIP_LENGTH cfg
          then [\<lparr>seg_start = start_time, seg_end = end_time, seg_duration = duration,
                 seg_score = avg_score, seg_confidence = min 1 (fmul ar avg_score 1.5)\<rparr>]
          else [])"

text \<open>The body of the loop at index \<open>i\<close>.\<close>

definition window_segments ::
  "arith \<Rightarrow> config \<Rightarrow> normalized_sample list \<Rightarrow> real \<Rightarrow> int \<Rightarrow> int \<Rightarrow> real segment list" where
  "window_segments ar cfg motion_scores threshold ws i =
     (case window_candidate ar motion_scores threshold ws i of
        None \<Rightarrow> []
      | Some c \<Rightarrow> clamp_candidate ar cfg motion_scores c)"

text \<open>Lines 232--271: the list \<open>segments\<close> when the loop has ended.\<close>

definition candidate_segments ::
  "arith \<Rightarrow> config \<Rightarrow> normalized_sample list \<Rightarrow> real \<Rightarrow> int \<Rightarrow> error + real segment list" where
  "candidate_segments ar cfg motion_scores rate segment_duration =
     (let threshold = score_threshold ar motion_scores in
      case window_size ar cfg rate segment_duration of Inl e \<Rightarrow> Inl e | Inr ws \<Rightarrow>
      case window_starts ws (length motion_scores) of Inl e \<Rightarrow> Inl e | Inr starts \<Rightarrow>
      Inr (concat (map (window_segments ar cfg motion_scores threshold ws) starts)))"

text \<open>The whole function: the guard of line 229, the loop, the sort and the resolver.\<close>

definition extract_segments_from_scores ::
  "arith \<Rightarrow> config \<Rightarrow> normalized_sample list \<Rightarrow> real \<Rightarrow> int \<Rightarrow> error + real segment list" where
  "extract_segments_from_scores ar cfg motion_scores rate segment_duration =
     (if motion_scores = [] then Inr []
      else
        case candidate_segments ar cfg motion_scores rate segment_duration of
          Inl e \<Rightarrow> Inl e
        | Inr segments \<Rightarrow>
            Inr (remove_overlapping_segments (sorted_by_score_desc segments)))"

subsection \<open>The local pipeline: \<open>_detect_segments_with_motion\<close>\<close>

text \<open>
  What \<open>cv2.VideoCapture\<close> delivers for the path: whether the source opened, the frame
  rate and frame count properties, and the frames that successive \<open>cap.read()\<close> calls
  return.
\<close>

record 'f video =
  opened :: bool
  fps :: real
  total_frames :: int
  frames :: "'f list"


text \<open>
  The OpenCV calls are parameters: \<open>to_gray\<close> stands for \<open>cv2.resize\<close> followed by
  \<open>cv2.cvtColor\<close>, \<open>motion_magnitude\<close> for \<open>cv2.calcOpticalFlowFarneback\<close>,
  \<open>cv2.cartToPolar\<close> and \<open>np.mean\<close> of the magnitude. Either may raise.
\<close>

record ('f, 'g) vision =
  to_gray :: "'f \<Rightarrow> error + 'g"
  motion_magnitude :: "'g \<Rightarrow> 'g \<Rightarrow> error + real"

text \<open>
  The \<open>while True\<close> loop of lines 149--183, by recursion on the frames still to be read.
  The state is \<open>prev_frame\<close>, \<open>frame_idx\<close> and \<open>motion_scores\<close>.
\<close>

fun sample_frames ::
  "arith \<Rightarrow> config \<Rightarrow> ('f, 'g) vision \<Rightarrow> real \<Rightarrow> 'f list \<Rightarrow> 'g option \<Rightarrow> int
     \<Rightarrow> motion_sample list \<Rightarrow> error + motion_sample list" where
  "sample_frames ar cfg cv rate [] prev_frame frame_idx motion_scores = Inr motion_scores"
| "sample_frames ar cfg cv rate (fr # rest) prev_frame frame_idx motion_scores =
     (if frame_sample_rate cfg = 0 then Inl ZeroDivisionError
      else if frame_idx mod frame_sample_rate cfg \<noteq> 0
      then sample_frames ar cfg cv rate rest prev_frame (frame_idx + 1) motion_scores
      else
        case to_gray cv fr of Inl e \<Rightarrow> Inl e | Inr gray \<Rightarrow>
        (case prev_frame of
           None \<Rightarrow> sample_frames ar cfg cv rate rest (Some gray) (frame_idx + 1) motion_scores
         | Some prev \<Rightarrow>
             (case motion_magnitude cv prev gray of Inl e \<Rightarrow> Inl e | Inr motion_score \<Rightarrow>
              if rate = 0 then Inl ZeroDivisionError
              else sample_frames ar cfg cv rate rest (Some gray) (frame_idx + 1)
                     (motion_scores @
                        [\<lparr>frame = frame_idx, time = fdiv ar (real_of_int frame_idx) rate,
                          score = motion_score\<rparr>]))))"

text \<open>The body of the \<open>try\<close> block, lines 134--206.\<close>

definition motion_pipeline ::
  "arith \<Rightarrow> config \<Rightarrow> ('f, 'g) vision \<Rightarrow> 'f video \<Rightarrow> int \<Rightarrow> error + real segment list" where
  "motion_pipeline ar cfg cv v segment_duration =
     (if \<not> opened v then Inl ValueError
      else
        case sample_frames ar cfg cv (fps v) (frames v) None 0 [] of Inl e \<Rightarrow> Inl e
        | Inr motion_scores \<Rightarrow>
            if motion_scores = [] then Inr []
            else
              case normalize_scores motion_scores of Inl e \<Rightarrow> Inl e
              | Inr normalized \<Rightarrow>
                  extract_segments_from_scores ar cfg normalized (fps v) segment_duration)"

subsection \<open>JSON values and the remote response\<close>

text \<open>
  \<open>json.loads\<close> reads a number without fraction or exponent as an \<open>int\<close> of any size
  and every other number as a float.
\<close>

datatype json =
  JNull | JBool bool | JInt int | JFloat real | JStr string | JArr "json list"
  | JObj "(string \<times> json) list"

text \<open>
  The result of the request: \<open>open\<close> or \<open>requests.post\<close> raises, or there is a response
  with a status code and a body on which \<open>response.json()\<close> raises or returns a value.
\<close>

datatype body = Not_json | Json json

datatype api_outcome = Request_raises error | Response int body

text \<open>A float of the local pipeline as it appears in the returned dictionary.\<close>

definition as_json_segment :: "real segment \<Rightarrow> json segment" where
  "as_json_segment s =
     \<lparr>seg_start = seg_start s, seg_end = seg_end s, seg_duration = seg_duration s,
      seg_score = JFloat (seg_score s), seg_confidence = JFloat (seg_confidence s)\<rparr>"

text \<open>
  The \<open>try\<close>/\<open>except\<close> of \<open>_detect_segments_with_motion\<close>: the handler of lines
  208--210 returns the empty list.
\<close>

definition detect_segments_with_motion ::
  "arith \<Rightarrow> config \<Rightarrow> ('f, 'g) vision \<Rightarrow> 'f video \<Rightarrow> int \<Rightarrow> error + json segment list" where
  "detect_segments_with_motion ar cfg cv v segment_duration =
     (case motion_pipeline ar cfg cv v segment_duration of
        Inl e \<Rightarrow> Inr []
      | Inr segments \<Rightarrow> Inr (map as_json_segment segments))"

text \<open>
  A dictionary built by \<open>json.loads\<close> keeps the last value of a repeated key.
  \<open>d[k]\<close> raises \<open>KeyError\<close> on a dictionary without the key and \<open>TypeError\<close> on a value
  of another type (the key here is a string); \<open>d.get(k, default)\<close> exists on
  dictionaries only.
\<close>

definition dict_lookup :: "(string \<times> json) list \<Rightarrow> string \<Rightarrow> json option" where
  "dict_lookup kvs k = map_of (rev kvs) k"

definition getitem :: "json \<Rightarrow> string \<Rightarrow> error + json" where
  "getitem d k =
     (case d of
        JObj kvs \<Rightarrow> (case dict_lookup kvs k of None \<Rightarrow> Inl KeyError | Some v \<Rightarrow> Inr v)
      | _ \<Rightarrow> Inl TypeError)"

definition dict_get :: "json \<Rightarrow> string \<Rightarrow> json \<Rightarrow> error + json" where
  "dict_get d k dflt =
     (case d of
        JObj kvs \<Rightarrow> (case dict_lookup kvs k of None \<Rightarrow> Inr dflt | Some v \<Rightarrow> Inr v)
      | _ \<Rightarrow> Inl AttributeError)"

text \<open>
  The operands on which \<open>-\<close> is defined among JSON values are the integers, the floats
  and the Booleans (\<open>True\<close> is the integer 1, \<open>False\<close> the integer 0).
\<close>

datatype pynum = PInt int | PFloat real

definition json_number :: "json \<Rightarrow> pynum option" where
  "json_number j =
     (case j of
        JInt n \<Rightarrow> Some (PInt n)
      | JFloat r \<Rightarrow> Some (PFloat r)
      | JBool b \<Rightarrow> Some (PInt (if b then 1 else 0))
      | _ \<Rightarrow> None)"

text \<open>The number that a Python number denotes.\<close>

definition num_value :: "pynum \<Rightarrow> real" where
  "num_value n = (case n of PInt k \<Rightarrow> real_of_int k | PFloat r \<Rightarrow> r)"

text \<open>
  \<open>a - b\<close> on Python numbers: exact on two integers, the float subtraction on two
  floats; a mixed pair converts the integer to a float first, which raises
  \<open>OverflowError\<close> for an integer beyond the range of floats.
\<close>

definition py_sub :: "arith \<Rightarrow> pynum \<Rightarrow> pynum \<Rightarrow> error + pynum" where
  "py_sub ar a b =
     (case (a, b) of
        (PInt m, PInt n) \<Rightarrow> Inr (PInt (m - n))
      | (PFloat x, PFloat y) \<Rightarrow> Inr (PFloat (fsub ar x y))
      | (PInt m, PFloat y) \<Rightarrow>
          (case int_to_float ar m of
             None \<Rightarrow> Inl OverflowError | Some x \<Rightarrow> Inr (PFloat (fsub ar x y)))
      | (PFloat x, PInt n) \<Rightarrow>
          (case int_to_float ar n of
             None \<Rightarrow> Inl OverflowError | Some y \<Rightarrow> Inr (PFloat (fsub ar x y))))"

text \<open>
  What a \<open>for\<close> loop iterates over: the elements of a list, the characters of a string,
  the keys of a dictionary; the other values are not iterable.
\<close>

definition iter_items :: "json \<Rightarrow> error + json list" where
  "iter_items j =
     (case j of
        JArr xs \<Rightarrow> Inr xs
      | JStr s \<Rightarrow> Inr (map (\<lambda>c. JStr [c]) s)
      | JObj kvs \<Rightarrow> Inr (map JStr (rev (remdups (rev (map fst kvs)))))
      | _ \<Rightarrow> Inl TypeError)"

text \<open>
  Lines 105--111: the dictionary appended for one item of the response. The values
  under \<open>'start'\<close> and \<open>'end'\<close> are numbers once the subtraction has succeeded.
\<close>

definition remote_segment :: "arith \<Rightarrow> json \<Rightarrow> error + json segment" where
  "remote_segment ar seg =
     (case getitem seg ''start_time'' of Inl e \<Rightarrow> Inl e | Inr start_time \<Rightarrow>
      case getitem seg ''end_time'' of Inl e \<Rightarrow> Inl e | Inr end_time \<Rightarrow>
      case (json_number start_time, json_number end_time) of
        (Some a, Some b) \<Rightarrow>
          (case py_sub ar b a of Inl e \<Rightarrow> Inl e | Inr duration \<Rightarrow>
           case dict_get seg ''action_score'' (JFloat 0.5) of Inl e \<Rightarrow> Inl e | Inr sc \<Rightarrow>
           case dict_get seg ''confidence'' (JFloat 0.5) of Inl e \<Rightarrow> Inl e | Inr conf \<Rightarrow>
           Inr \<lparr>seg_start = num_value a, seg_end = num_value b,
                seg_duration = num_value duration,
                seg_score = sc, seg_confidence = conf\<rparr>)
      | _ \<Rightarrow> Inl TypeError)"

text \<open>The loop of line 104.\<close>

fun remote_segments :: "arith \<Rightarrow> json list \<Rightarrow> error + json segment list" where
  "remote_segments ar [] = Inr []"
| "remote_segments ar (seg # rest) =
     (case remote_segment ar seg of Inl e \<Rightarrow> Inl e | Inr s \<Rightarrow>
      case remote_segments ar rest of Inl e \<Rightarrow> Inl e | Inr segments \<Rightarrow> Inr (s # segments))"

text \<open>Lines 102--113: the branch of status 200.\<close>

definition parse_response :: "arith \<Rightarrow> body \<Rightarrow> error + json segment list" where
  "parse_response ar b =
     (case b of
        Not_json \<Rightarrow> Inl JSONDecodeError
      | Json result \<Rightarrow>
          (case dict_get result ''segments'' (JArr []) of Inl e \<Rightarrow> Inl e | Inr items \<Rightarrow>
           case iter_items items of Inl e \<Rightarrow> Inl e | Inr segs \<Rightarrow> remote_segments ar segs))"

subsection \<open>The remote strategy and the orchestrator\<close>

text \<open>The body of the \<open>try\<close> block of \<open>_detect_segments_with_api\<close>, lines 84--116.\<close>

definition api_request ::
  "arith \<Rightarrow> config \<Rightarrow> ('f, 'g) vision \<Rightarrow> api_outcome \<Rightarrow> 'f video \<Rightarrow> int
     \<Rightarrow> error + json segment list" where
  "api_request ar cfg cv api v segment_duration =
     (case api of
        Request_raises e \<Rightarrow> Inl e
      | Response status_code b \<Rightarrow>
          if status_code = 200 then parse_response ar b
          else detect_segments_with_motion ar cfg cv v segment_duration)"

text \<open>The handler of lines 118--120 calls the local pipeline.\<close>

definition detect_segments_with_api ::
  "arith \<Rightarrow> config \<Rightarrow> ('f, 'g) vision \<Rightarrow> api_outcome \<Rightarrow> 'f video \<Rightarrow> int
     \<Rightarrow> error + json segment list" where
  "detect_segments_with_api ar cfg cv api v segment_duration =
     (case api_request ar cfg cv api v segment_duration of
        Inl e \<Rightarrow> detect_segments_with_motion ar cfg cv v segment_duration
      | Inr segments \<Rightarrow> Inr segments)"

text \<open>The truth value of \<open>self.clipping_api_key\<close>: \<open>None\<close> and the empty string are false.\<close>

definition key_present :: "config \<Rightarrow> bool" where
  "key_present cfg = (case clipping_api_key cfg of None \<Rightarrow> False | Some k \<Rightarrow> k \<noteq> [])"

text \<open>
  \<open>detect_high_action_segments\<close>. The argument \<open>segment_duration\<close> is \<open>None\<close> by default.
  \<open>Inl\<close> in the result is an exception that reaches the caller.
\<close>

definition detect_high_action_segments ::
  "arith \<Rightarrow> config \<Rightarrow> ('f, 'g) vision \<Rightarrow> api_outcome \<Rightarrow> 'f video \<Rightarrow> int option
     \<Rightarrow> error + json segment list" where
  "detect_high_action_segments ar cfg cv api v segment_duration_arg =
     (let segment_duration =
            (case segment_duration_arg of None \<Rightarrow> TARGET_CLIP_LENGTH cfg | Some d \<Rightarrow> d)
      in if use_clipping_api cfg \<and> key_present cfg
         then detect_segments_with_api ar cfg cv api v segment_duration
         else detect_segments_with_motion ar cfg cv v segment_duration)"

subsection \<open>Concrete inputs\<close>

text \<open>
  A stand-in for the OpenCV calls on frames of constant luma: a frame is its luma value
  and the motion between two frames is the absolute difference.
\<close>

definition example_vision :: "(real, real) vision" where
  "example_vision = \<lparr>to_gray = Inr, motion_magnitude = (\<lambda>a b. Inr \<bar>b - a\<bar>)\<rparr>"

text \<open>
  A configuration with stride 1, clip lengths between 2 and 10 seconds and a target of
  2 seconds, and a video of seventeen frames at one frame per second, with its motion
  samples before and after normalisation, the segments that the loop collects and the
  segments that the detector returns.
\<close>

definition example_config :: config where
  "example_config =
     \<lparr>frame_sample_rate = 1, use_clipping_api = False, clipping_api_key = None,
      MIN_CLIP_LENGTH = 2, MAX_CLIP_LENGTH = 10, TARGET_CLIP_LENGTH = 2\<rparr>"

definition example_video :: "real video" where
  "example_video =
     \<lparr>opened = True, fps = 1, total_frames = 17,
      frames = [0, 0, 1, 2, 3, 3, 4, 4, 4, 5, 6, 6, 7, 7, 8, 8, 8]\<rparr>"

definition example_raw_samples :: "motion_sample list" where
  "example_raw_samples =
     [\<lparr>frame = 1, time = 1, score = 0\<rparr>, \<lparr>frame = 2, time = 2, score = 1\<rparr>,
      \<lparr>frame = 3, time = 3, score = 1\<rparr>, \<lparr>frame = 4, time = 4, score = 1\<rparr>,
      \<lparr>frame = 5, time = 5, score = 0\<rparr>, \<lparr>frame = 6, time = 6, score = 1\<rparr>,
      \<lparr>frame = 7, time = 7, score = 0\<rparr>, \<lparr>frame = 8, time = 8, score = 0\<rparr>,
      \<lparr>frame = 9, time = 9, score = 1\<rparr>, \<lparr>frame = 10, time = 10, score = 1\<rparr>,
      \<lparr>frame = 11, time = 11, score = 0\<rparr>, \<lparr>frame = 12, time = 12, score = 1\<rparr>,
      \<lparr>frame = 13, time = 13, score = 0\<rparr>, \<lparr>frame = 14, time = 14, score = 1\<rparr>,
      \<lparr>frame = 15, time = 15, score = 0\<rparr>, \<lparr>frame = 16, time = 16, score = 0\<rparr>]"

definition example_samples :: "normalized_sample list" where
  "example_samples =
     [\<lparr>frame = 1, time = 1, score = 0, normalized_score = 0\<rparr>,
      \<lparr>frame = 2, time = 2, score = 1, normalized_score = 1\<rparr>,
      \<lparr>frame = 3, time = 3, score = 1, normalized_score = 1\<rparr>,
      \<lparr>frame = 4, time = 4, score = 1, normalized_score = 1\<rparr>,
      \<lparr>frame = 5, time = 5, score = 0, normalized_score = 0\<rparr>,
      \<lparr>frame = 6, time = 6, score = 1, normalized_score = 1\<rparr>,
      \<lparr>frame = 7, time = 7, score = 0, normalized_score = 0\<rparr>,
      \<lparr>frame = 8, time = 8, score = 0, normalized_score = 0\<rparr>,
      \<lparr>frame = 9, time = 9, score = 1, normalized_score = 1\<rparr>,
      \<lparr>frame = 10, time = 10, score = 1, normalized_score = 1\<rparr>,
      \<lparr>frame = 11, time = 11, score = 0, normalized_score = 0\<rparr>,
      \<lparr>frame = 12, time = 12, score = 1, normalized_score = 1\<rparr>,
      \<lparr>frame = 13, time = 13, score = 0, normalized_score = 0\<rparr>,
      \<lparr>frame = 14, time = 14, score = 1, normalized_score = 1\<rparr>,
      \<lparr>frame = 15, time = 15, score = 0, normalized_score = 0\<rparr>,
      \<lparr>frame = 16, time = 16, score = 0, normalized_score = 0\<rparr>]"

definition example_candidates :: "real segment list" where
  "example_candidates =
     [\<lparr>seg_start = 3 / 2, seg_end = 7 / 2, seg_duration = 2, seg_score = 1, seg_confidence = 1\<rparr>,
      \<lparr>seg_start = 5 / 2, seg_end = 9 / 2, seg_duration = 2, seg_score = 1, seg_confidence = 1\<rparr>,
      \<lparr>seg_start = 17 / 2, seg_end = 21 / 2, seg_duration = 2, seg_score = 1, seg_confidence = 1\<rparr>]"

definition example_segments :: "real segment list" where
  "example_segments =
     [\<lparr>seg_start = 3 / 2, seg_end = 7 / 2, seg_duration = 2, seg_score = 1, seg_confidence = 1\<rparr>,
      \<lparr>seg_start = 17 / 2, seg_end = 21 / 2, seg_duration = 2, seg_score = 1, seg_confidence = 1\<rparr>]"

text \<open>
  A video of nine frames whose motion is in its last four samples, and its motion
  samples after normalisation.
\<close>

definition late_video :: "real video" where
  "late_video =
     \<lparr>opened = True, fps = 1, total_frames = 9,
      frames = [0, 0, 0, 0, 0, 1, 2, 3, 4]\<rparr>"

definition late_raw_samples :: "motion_sample list" where
  "late_raw_samples =
     [\<lparr>frame = 1, time = 1, score = 0\<rparr>, \<lparr>frame = 2, time = 2, score = 0\<rparr>,
      \<lparr>frame = 3, time = 3, score = 0\<rparr>, \<lparr>frame = 4, time = 4, score = 0\<rparr>,
      \<lparr>frame = 5, time = 5, score = 1\<rparr>, \<lparr>frame = 6, time = 6, score = 1\<rparr>,
      \<lparr>frame = 7, time = 7, score = 1\<rparr>, \<lparr>frame = 8, time = 8, score = 1\<rparr>]"

definition late_samples :: "normalized_sample list" where
  "late_samples =
     [\<lparr>frame = 1, time = 1, score = 0, normalized_score = 0\<rparr>,
      \<lparr>frame = 2, time = 2, score = 0, normalized_score = 0\<rparr>,
      \<lparr>frame = 3, time = 3, score = 0, normalized_score = 0\<rparr>,
      \<lparr>frame = 4, time = 4, score = 0, normalized_score = 0\<rparr>,
      \<lparr>frame = 5, time = 5, score = 1, normalized_score = 1\<rparr>,
      \<lparr>frame = 6, time = 6, score = 1, normalized_score = 1\<rparr>,
      \<lparr>frame = 7, time = 7, score = 1, normalized_score = 1\<rparr>,
      \<lparr>frame = 8, time = 8, score = 1, normalized_score = 1\<rparr>]"


text \<open>
  A video of seventeen frames at one frame per second, read with the stride 2 of the
  reference configuration, and its motion samples after normalisation.
\<close>

definition stride_video :: "real video" where
  "stride_video =
     \<lparr>opened = True, fps = 1, total_frames = 17,
      frames = [0, 0, 1, 0, 1, 0, 1, 0, 2, 0, 3, 0, 3, 0, 4, 0, 4]\<rparr>"

definition stride_raw_samples :: "motion_sample list" where
  "stride_raw_samples =
     [\<lparr>frame = 2, time = 2, score = 1\<rparr>, \<lparr>frame = 4, time = 4, score = 0\<rparr>,
      \<lparr>frame = 6, time = 6, score = 0\<rparr>, \<lparr>frame = 8, time = 8, score = 1\<rparr>,
      \<lparr>frame = 10, time = 10, score = 1\<rparr>, \<lparr>frame = 12, time = 12, score = 0\<rparr>,
      \<lparr>frame = 14, time = 14, score = 1\<rparr>, \<lparr>frame = 16, time = 16, score = 0\<rparr>]"

definition stride_samples :: "normalized_sample list" where
  "stride_samples =
     [\<lparr>frame = 2, time = 2, score = 1, normalized_score = 1\<rparr>,
      \<lparr>frame = 4, time = 4, score = 0, normalized_score = 0\<rparr>,
      \<lparr>frame = 6, time = 6, score = 0, normalized_score = 0\<rparr>,
      \<lparr>frame = 8, time = 8, score = 1, normalized_score = 1\<rparr>,
      \<lparr>frame = 10, time = 10, score = 1, normalized_score = 1\<rparr>,
      \<lparr>frame = 12, time = 12, score = 0, normalized_score = 0\<rparr>,
      \<lparr>frame = 14, time = 14, score = 1, normalized_score = 1\<rparr>,
      \<lparr>frame = 16, time = 16, score = 0, normalized_score = 0\<rparr>]"

text \<open>The example configuration with the remote strategy enabled and a key set.\<close>

definition remote_config :: config where
  "remote_config = example_config\<lparr>use_clipping_api := True, clipping_api_key := Some ''key''\<rparr>"

text \<open>
  Three response bodies. In the first the two items of \<open>segments\<close> overlap in time. In
  the second the only item has a string where the score is expected and no confidence.
  In the third the second item has no \<open>start_time\<close>.
\<close>

definition overlapping_body :: body where
  "overlapping_body =
     Json (JObj [(''segments'', JArr
       [JObj [(''start_time'', JInt 0), (''end_time'', JInt 10),
              (''action_score'', JFloat 0.75), (''confidence'', JFloat 0.5)],
        JObj [(''start_time'', JInt 5), (''end_time'', JInt 15),
              (''action_score'', JFloat 0.5), (''confidence'', JFloat 0.25)]])])"

definition partial_body :: body where
  "partial_body =
     Json (JObj [(''segments'', JArr
       [JObj [(''start_time'', JInt 0), (''end_time'', JInt 10),
              (''action_score'', JStr ''high'')]])])"

definition broken_body :: body where
  "broken_body =
     Json (JObj [(''segments'', JArr
       [JObj [(''start_time'', JInt 0), (''end_time'', JInt 10),
              (''action_score'', JFloat 0.75), (''confidence'', JFloat 0.5)],
        JObj [(''end_time'', JInt 15), (''action_score'', JFloat 0.5),
              (''confidence'', JFloat 0.25)]])])"

text \<open>
  An arithmetic without rounding in which, as in binary64, an integer of magnitude
  \<open>2 ^ 1024\<close> or more has no float, and a response body whose only item has such an
  integer as \<open>end_time\<close> and a float as \<open>start_time\<close>.
\<close>

definition bounded_arith :: arith where
  "bounded_arith =
     exact_arith\<lparr>int_to_float :=
       (\<lambda>n. if \<bar>n\<bar> < 2 ^ 1024 then Some (real_of_int n) else None)\<rparr>"

definition overflow_body :: body where
  "overflow_body =
     Json (JObj [(''segments'', JArr
       [JObj [(''start_time'', JFloat 0.5), (''end_time'', JInt (2 ^ 1024)),
              (''action_score'', JFloat 0.75), (''confidence'', JFloat 0.5)]])])"

subsection \<open>Properties of the overlap resolver\<close>

lemma time_overlap_sym: "time_overlap A B = time_overlap B A"
  by (auto simp: time_overlap_def)

lemma overlaps_existing_iff:
  "overlaps_existing seg acc \<longleftrightarrow> (\<exists>B \<in> set acc. time_overlap seg B)"
  by (induction acc) (auto simp: time_overlap_def)

lemma no_two_overlap_snoc:
  "no_two_overlap (acc @ [seg]) \<longleftrightarrow>
     no_two_overlap acc \<and> (\<forall>B \<in> set acc. \<not> time_overlap B seg)"
  by (induction acc) (auto simp: list_all_iff)

lemma remove_overlapping_loop_no_overlap:
  "no_two_overlap acc \<Longrightarrow> no_two_overlap (remove_overlapping_loop segs acc)"
proof (induction segs arbitrary: acc)
  case Nil
  then show ?case by simp
next
  case (Cons seg segs)
  show ?case
  proof (cases "overlaps_existing seg acc")
    case True
    with Cons show ?thesis by simp
  next
    case False
    then have "\<forall>B \<in> set acc. \<not> time_overlap B seg"
      using time_overlap_sym overlaps_existing_iff by blast
    with Cons.prems have "no_two_overlap (acc @ [seg])"
      by (simp add: no_two_overlap_snoc)
    with Cons.IH False show ?thesis by simp
  qed
qed

lemma remove_overlapping_segments_no_overlap:
  "no_two_overlap (remove_overlapping_segments segs)"
  by (simp add: remove_overlapping_segments_def remove_overlapping_loop_no_overlap)

lemma no_two_overlap_nth:
  "no_two_overlap segs \<Longrightarrow> i < length segs \<Longrightarrow> j < length segs \<Longrightarrow> i \<noteq> j \<Longrightarrow>
     \<not> time_overlap (segs ! i) (segs ! j)"
proof (induction segs arbitrary: i j)
  case Nil
  then show ?case by simp
next
  case (Cons A rest)
  show ?case
  proof (cases i)
    case 0
    with Cons.prems obtain j' where "j = Suc j'" "j' < length rest"
      by (cases j) auto
    with Cons.prems 0 show ?thesis by (auto simp: list_all_iff)
  next
    case (Suc i')
    show ?thesis
    proof (cases j)
      case 0
      with Cons.prems Suc have "\<not> time_overlap A (rest ! i')"
        by (auto simp: list_all_iff)
      with 0 Suc show ?thesis using time_overlap_sym by auto
    next
      case (Suc j')
      with Cons \<open>i = Suc i'\<close> show ?thesis by auto
    qed
  qed
qed

lemma remove_overlapping_loop_prefix:
  "\<exists>ys. remove_overlapping_loop segs acc = acc @ ys \<and> subseq ys segs"
proof (induction segs arbitrary: acc)
  case Nil
  then show ?case by simp
next
  case (Cons seg segs)
  show ?case
  proof (cases "overlaps_existing seg acc")
    case True
    from Cons.IH [of acc] obtain ys
      where "remove_overlapping_loop segs acc = acc @ ys" "subseq ys segs" by blast
    with True show ?thesis by auto
  next
    case False
    from Cons.IH [of "acc @ [seg]"] obtain ys
      where "remove_overlapping_loop segs (acc @ [seg]) = (acc @ [seg]) @ ys" "subseq ys segs"
      by blast
    with False have "remove_overlapping_loop (seg # segs) acc = acc @ (seg # ys)"
      "subseq (seg # ys) (seg # segs)" by auto
    then show ?thesis by blast
  qed
qed

lemma remove_overlapping_loop_first:
  "\<exists>ys. remove_overlapping_loop (seg # segs) [] = seg # ys"
  using remove_overlapping_loop_prefix [of segs "[seg]"] by auto

lemma sorted_by_score_desc_head:
  "\<exists>x xs. sorted_by_score_desc (c # cs) = x # xs \<and> (\<forall>s \<in> set (c # cs). seg_score s \<le> seg_score x)"
proof -
  let ?l = "sorted_by_score_desc (c # cs)"
  have "length ?l = length (c # cs)" by (simp add: sorted_by_score_desc_def)
  then obtain x xs where l: "?l = x # xs" by (cases ?l) auto
  have "sorted (map (\<lambda>s. - seg_score s) ?l)"
    unfolding sorted_by_score_desc_def by (rule sorted_sort_key)
  with l have "\<forall>y \<in> set xs. seg_score y \<le> seg_score x" by auto
  moreover have "set (c # cs) = set (x # xs)"
    using l by (metis set_sort sorted_by_score_desc_def)
  ultimately have "\<forall>s \<in> set (c # cs). seg_score s \<le> seg_score x" by auto
  with l show ?thesis by blast
qed

text \<open>
  C10. The overlap resolver returns a subsequence of its input (every output segment is
  an element of the input, unchanged, and the relative order is the input's), and the
  first segment of a non-empty input is always the first segment of the output. In the
  extraction the input is the candidate list after the stable sort by descending score,
  so the first output segment has the highest score of all candidates.
\<close>

theorem remove_overlapping_segments_subseq_first:
  "subseq (remove_overlapping_segments segs) segs
   \<and> (\<exists>ys. remove_overlapping_segments (seg # segs) = seg # ys)
   \<and> (\<forall>s \<in> set (c # cs).
         seg_score s \<le> seg_score (hd (remove_overlapping_segments (sorted_by_score_desc (c # cs)))))"
proof (intro conjI)
  show "subseq (remove_overlapping_segments segs) segs"
    using remove_overlapping_loop_prefix [of segs "[]"]
    by (auto simp: remove_overlapping_segments_def)
  show "\<exists>ys. remove_overlapping_segments (seg # segs) = seg # ys"
    using remove_overlapping_loop_first [of seg segs]
    by (simp add: remove_overlapping_segments_def)
  obtain x xs where x: "sorted_by_score_desc (c # cs) = x # xs"
    "\<forall>s \<in> set (c # cs). seg_score s \<le> seg_score x"
    using sorted_by_score_desc_head by blast
  obtain ys where "remove_overlapping_loop (x # xs) [] = x # ys"
    using remove_overlapping_loop_first by blast
  then have "hd (remove_overlapping_segments (x # xs)) = x"
    by (simp add: remove_overlapping_segments_def)
  with x show "\<forall>s \<in> set (c # cs).
      seg_score s \<le> seg_score (hd (remove_overlapping_segments (sorted_by_score_desc (c # cs))))"
    by simp
qed

theorem remove_overlapping_segments_subseq_first_witness:
  "remove_overlapping_segments (sorted_by_score_desc
      [\<lparr>seg_start = 0, seg_end = 2, seg_duration = 2, seg_score = 1 / 2, seg_confidence = 3 / 4\<rparr>,
       \<lparr>seg_start = 1, seg_end = 3, seg_duration = 2, seg_score = 9 / 10, seg_confidence = 1\<rparr>,
       \<lparr>seg_start = 5, seg_end = 7, seg_duration = 2, seg_score = 9 / 10, seg_confidence = 1\<rparr>])
     = [\<lparr>seg_start = 1, seg_end = 3, seg_duration = 2, seg_score = 9 / 10, seg_confidence = 1\<rparr>,
        \<lparr>seg_start = 5, seg_end = 7, seg_duration = 2, seg_score = 9 / 10, seg_confidence = 1\<rparr>]
   \<and> seg_score \<lparr>seg_start = 0, seg_end = 2, seg_duration = 2, seg_score = 1 / 2,
                  seg_confidence = 3 / 4 :: real\<rparr>
       \<le> seg_score (hd (remove_overlapping_segments (sorted_by_score_desc
      [\<lparr>seg_start = 0, seg_end = 2, seg_duration = 2, seg_score = 1 / 2, seg_confidence = 3 / 4\<rparr>,
       \<lparr>seg_start = 1, seg_end = 3, seg_duration = 2, seg_score = 9 / 10, seg_confidence = 1\<rparr>,
       \<lparr>seg_start = 5, seg_end = 7, seg_duration = 2, seg_score = 9 / 10, seg_confidence = 1\<rparr>])))"
proof -
  let ?A = "\<lparr>seg_start = 0, seg_end = 2, seg_duration = 2, seg_score = 1 / 2,
              seg_confidence = 3 / 4 :: real\<rparr>"
  let ?B = "\<lparr>seg_start = 1, seg_end = 3, seg_duration = 2, seg_score = 9 / 10,
              seg_confidence = 1 :: real\<rparr>"
  let ?C = "\<lparr>seg_start = 5, seg_end = 7, seg_duration = 2, seg_score = 9 / 10,
              seg_confidence = 1 :: real\<rparr>"
  have run: "remove_overlapping_segments (sorted_by_score_desc [?A, ?B, ?C]) = [?B, ?C]"
    by (simp add: sorted_by_score_desc_def remove_overlapping_segments_def)
  have "?A \<in> set (?A # [?B, ?C])" by simp
  with remove_overlapping_segments_subseq_first [where c = ?A and cs = "[?B, ?C]"]
  have "seg_score ?A \<le> seg_score (hd (remove_overlapping_segments
      (sorted_by_score_desc (?A # [?B, ?C]))))"
    by blast
  with run show ?thesis by simp
qed

subsection \<open>Normalisation\<close>

lemma py_max_Max: "xs \<noteq> [] \<Longrightarrow> py_max xs = Inr (Max (set xs))"
proof (cases xs)
  case Nil
  assume "xs \<noteq> []"
  with Nil show ?thesis by simp
next
  case (Cons a list)
  then show ?thesis using Max.set_eq_fold [of a list] by simp
qed

lemma py_min_Min: "xs \<noteq> [] \<Longrightarrow> py_min xs = Inr (Min (set xs))"
proof (cases xs)
  case Nil
  assume "xs \<noteq> []"
  with Nil show ?thesis by simp
next
  case (Cons a list)
  then show ?thesis using Min.set_eq_fold [of a list] by simp
qed

lemma normalize_scores_eq:
  assumes "motion_scores \<noteq> []"
  shows "normalize_scores motion_scores =
     Inr (map (\<lambda>m. \<lparr>frame = frame m, time = time m, score = score m,
           normalized_score = (score m - Min (score ` set motion_scores)) /
              (if Max (score ` set motion_scores) > Min (score ` set motion_scores)
               then Max (score ` set motion_scores) - Min (score ` set motion_scores) else 1)\<rparr>)
          motion_scores)"
  using assms by (simp add: normalize_scores_def py_max_Max py_min_Min)



subsection \<open>The sliding window\<close>


lemma count_up_iff:
  fixes step stop :: int
  assumes "0 < step"
  shows "int k < (stop + step - 1) div step \<longleftrightarrow> int k * step < stop"
proof
  let ?q = "(stop + step - 1) div step"
  assume "int k < ?q"
  then have "int k + 1 \<le> ?q" by simp
  then have "(int k + 1) * step \<le> ?q * step"
    using assms by (simp add: mult_right_mono)
  also have "?q * step = (stop + step - 1) - (stop + step - 1) mod step"
    by (simp add: minus_mod_eq_div_mult)
  also have "\<dots> \<le> stop + step - 1"
  proof -
    have "0 \<le> (stop + step - 1) mod step" using assms by simp
    then show ?thesis by linarith
  qed
  finally show "int k * step < stop" by (simp add: algebra_simps)
next
  assume "int k * step < stop"
  then have "(int k + 1) * step \<le> stop + step - 1" by (simp add: algebra_simps)
  then have "((int k + 1) * step) div step \<le> (stop + step - 1) div step"
    using assms by (rule zdiv_mono1)
  then show "int k < (stop + step - 1) div step" using assms by simp
qed

lemma py_range_up:
  assumes "0 < step"
  shows "py_range 0 stop step = Inr starts \<Longrightarrow>
     (i \<in> set starts \<longleftrightarrow> (\<exists>k::nat. i = int k * step \<and> int k * step < stop))"
  using assms count_up_iff [OF assms, of _ stop]
  by (auto simp: py_range_def zless_nat_eq_int_zless image_iff)

lemma py_range_down_empty:
  assumes "step < 0" "0 \<le> stop"
  shows "py_range 0 stop step = Inr []"
proof -
  have "(0 - stop - step - 1) div (- step) \<le> 0"
  proof -
    have "0 - stop - step - 1 < - step" using assms by simp
    then have "(0 - stop - step - 1) div (- step) \<le> (- step - 1) div (- step)"
      using assms by (intro zdiv_mono1) auto
    also have "\<dots> = 0" using assms by (simp add: div_pos_pos_trivial)
    finally show ?thesis .
  qed
  then show ?thesis using assms by (simp add: py_range_def)
qed

lemma py_int_trunc: "py_int x = (if x \<ge> 0 then \<lfloor>\<bar>x\<bar>\<rfloor> else - \<lfloor>\<bar>x\<bar>\<rfloor>)"
  by (simp add: py_int_def ceiling_def)

lemma py_int_toward_zero:
  "\<bar>real_of_int (py_int x)\<bar> \<le> \<bar>x\<bar> \<and> \<bar>x\<bar> < \<bar>real_of_int (py_int x)\<bar> + 1"
  by (simp add: py_int_def) linarith


lemma py_slice_window:
  "0 \<le> i \<Longrightarrow> 0 \<le> ws \<Longrightarrow> nat i + nat ws \<le> length xs \<Longrightarrow>
     py_slice xs i (i + ws) = take (nat ws) (drop (nat i) xs)"
  by (simp add: py_slice_def Let_def min_def)



lemma window_starts_negative_step:
  assumes "step_size ws < 0"
  shows "window_starts ws len = Inr []"
proof -
  from assms have "ws < 0" by (simp add: step_size_def)
  then have "0 \<le> int len - ws" by simp
  with assms show ?thesis by (simp add: window_starts_def py_range_down_empty)
qed

lemma window_starts_mem:
  assumes "0 < step_size ws" "window_starts ws len = Inr starts"
  shows "i \<in> set starts \<longleftrightarrow> (\<exists>k::nat. i = int k * step_size ws \<and> int k * step_size ws + ws < int len)"
proof -
  have "i \<in> set starts \<longleftrightarrow> (\<exists>k::nat. i = int k * step_size ws \<and> int k * step_size ws < int len - ws)"
    using assms py_range_up [of "step_size ws" "int len - ws" starts i]
    by (simp add: window_starts_def)
  then show ?thesis by (simp add: algebra_simps)
qed

subsection \<open>A worked run of the local pipeline\<close>

lemma candidate_segments_unfold:
  assumes "window_size ar cfg rate segment_duration = Inr ws"
    "window_starts ws (length motion_scores) = Inr starts"
  shows "candidate_segments ar cfg motion_scores rate segment_duration =
     Inr (concat (map (window_segments ar cfg motion_scores (score_threshold ar motion_scores) ws)
            starts))"
  using assms by (simp add: candidate_segments_def)

lemma extract_segments_unfold:
  assumes "motion_scores \<noteq> []"
    "candidate_segments ar cfg motion_scores rate segment_duration = Inr segments"
  shows "extract_segments_from_scores ar cfg motion_scores rate segment_duration =
     Inr (remove_overlapping_segments (sorted_by_score_desc segments))"
  using assms by (simp add: extract_segments_from_scores_def)

lemma sqrt_quarter: "sqrt (1 / 4) = 1 / 2"
  by (simp add: real_sqrt_divide)

lemma upt_14: "[0..<14] = [0, 1, 2, 3, 4, 5, 6, 7, 8, 9, 10, 11, 12, 13]"
  by (simp add: upt_conv_Cons)

lemma example_sample_frames:
  "sample_frames exact_arith example_config example_vision (fps example_video)
     (frames example_video) None 0 [] = Inr example_raw_samples"
  by (simp add: example_config_def example_vision_def example_video_def example_raw_samples_def
      exact_arith_def)

lemma example_normalize: "normalize_scores example_raw_samples = Inr example_samples"
  by (simp add: normalize_scores_def example_samples_def example_raw_samples_def)

lemma example_threshold: "score_threshold exact_arith example_samples = 3 / 4"
  by (simp add: score_threshold_def exact_arith_def exact_mean_def exact_std_def
      power2_eq_square example_samples_def sqrt_quarter)

lemma example_window_size: "window_size exact_arith example_config 1 2 = Inr 2"
  by (simp add: window_size_def example_config_def py_int_def exact_arith_def)

lemma example_window_starts:
  "window_starts 2 (length example_samples) = Inr [0, 1, 2, 3, 4, 5, 6, 7, 8, 9, 10, 11, 12, 13]"
  by (simp add: window_starts_def step_size_def py_range_def example_samples_def upt_14)

lemma example_windows:
  "concat (map (window_segments exact_arith example_config example_samples (3 / 4) 2)
     [0, 1, 2, 3, 4, 5, 6, 7, 8, 9, 10, 11, 12, 13]) = example_candidates"
  by (simp add: window_segments_def window_candidate_def py_slice_def exact_mean_def
      clamp_candidate_def clamp_window_def example_samples_def example_config_def
      example_candidates_def exact_arith_def)

lemma example_candidate_segments:
  "candidate_segments exact_arith example_config example_samples 1 2 = Inr example_candidates"
  using candidate_segments_unfold [OF example_window_size example_window_starts]
  by (simp only: example_threshold example_windows)

lemma example_extract:
  "extract_segments_from_scores exact_arith example_config example_samples 1 2
     = Inr example_segments"
proof -
  have ne: "example_samples \<noteq> []" by (simp add: example_samples_def)
  have "remove_overlapping_segments (sorted_by_score_desc example_candidates)
      = example_segments"
    by (simp add: sorted_by_score_desc_def remove_overlapping_segments_def
        example_segments_def example_candidates_def)
  with extract_segments_unfold [OF ne example_candidate_segments] show ?thesis by simp
qed

lemma example_motion_pipeline:
  "motion_pipeline exact_arith example_config example_vision example_video 2
     = Inr example_segments"
proof -
  have "fps example_video = 1" "opened example_video" by (simp_all add: example_video_def)
  moreover have "example_raw_samples \<noteq> []" by (simp add: example_raw_samples_def)
  ultimately show ?thesis
    using example_sample_frames
    by (simp add: motion_pipeline_def example_normalize example_extract)
qed

lemma candidate_segments_set:
  assumes "candidate_segments ar cfg motion_scores rate segment_duration = Inr cands"
  shows "\<exists>ws starts. window_size ar cfg rate segment_duration = Inr ws
     \<and> window_starts ws (length motion_scores) = Inr starts
     \<and> set cands = (\<Union>i \<in> set starts.
          set (window_segments ar cfg motion_scores (score_threshold ar motion_scores) ws i))"
proof -
  from assms obtain ws where ws: "window_size ar cfg rate segment_duration = Inr ws"
    by (auto simp: candidate_segments_def Let_def split: sum.splits)
  from assms ws obtain starts where
    starts: "window_starts ws (length motion_scores) = Inr starts"
    by (auto simp: candidate_segments_def Let_def split: sum.splits)
  from assms candidate_segments_unfold [OF ws starts]
  have "set cands = (\<Union>i \<in> set starts.
      set (window_segments ar cfg motion_scores (score_threshold ar motion_scores) ws i))"
    by auto
  with ws starts show ?thesis by blast
qed

lemma window_starts_Inr_step: "window_starts ws len = Inr starts \<Longrightarrow> step_size ws \<noteq> 0"
  by (auto simp: window_starts_def py_range_def)

lemma candidate_segments_windows:
  assumes "candidate_segments ar cfg motion_scores rate segment_duration = Inr cands"
    and "window_size ar cfg rate segment_duration = Inr ws"
  shows "(\<forall>c \<in> set cands. \<exists>k::nat. 0 < ws div 2
            \<and> int k * (ws div 2) + ws < int (length motion_scores)
            \<and> c \<in> set (window_segments ar cfg motion_scores
                  (score_threshold ar motion_scores) ws (int k * (ws div 2))))
     \<and> (0 < ws div 2 \<longrightarrow>
          (\<forall>k::nat. int k * (ws div 2) + ws < int (length motion_scores) \<longrightarrow>
             set (window_segments ar cfg motion_scores (score_threshold ar motion_scores) ws
                    (int k * (ws div 2))) \<subseteq> set cands))"
proof -
  from candidate_segments_set [OF assms(1)] assms(2) obtain starts where
    starts: "window_starts ws (length motion_scores) = Inr starts"
    and cands: "set cands = (\<Union>i \<in> set starts.
          set (window_segments ar cfg motion_scores (score_threshold ar motion_scores) ws i))"
    by auto
  show ?thesis
  proof (cases "0 < ws div 2")
    case True
    then have pos: "0 < step_size ws" by (simp add: step_size_def)
    have mem: "i \<in> set starts \<longleftrightarrow>
        (\<exists>k::nat. i = int k * (ws div 2) \<and> int k * (ws div 2) + ws < int (length motion_scores))"
      for i
      using window_starts_mem [OF pos starts, of i] by (simp add: step_size_def)
    show ?thesis using True cands mem by fastforce
  next
    case False
    from window_starts_Inr_step [OF starts] False have "step_size ws < 0"
      by (simp add: step_size_def)
    from window_starts_negative_step [OF this] starts have "starts = []" by simp
    with cands False show ?thesis by simp
  qed
qed

text \<open>
  C3, as amended. The window length in samples is \<open>int(fps * T / s)\<close>: the
  floating-point value of the quotient truncated towards zero, not rounded; the step
  of the loop is \<open>window_length // 2\<close>. Every segment that the loop collects comes from a
  window that starts at a multiple \<open>k * (window_length // 2)\<close> of a positive step and
  lies within the sample sequence, and the loop evaluates the window at every such
  multiple with \<open>k * step + window_length < len(samples)\<close>: what the window yields there
  is among the collected segments. The function returns the collected segments sorted
  and resolved.
\<close>

theorem window_size_truncates_and_starts:
  assumes "frame_sample_rate cfg \<noteq> 0"
  shows "\<exists>ws. window_size ar cfg rate segment_duration = Inr ws
     \<and> ws = (if fdiv ar (fmul ar rate (real_of_int segment_duration))
                  (real_of_int (frame_sample_rate cfg)) \<ge> 0
             then \<lfloor>\<bar>fdiv ar (fmul ar rate (real_of_int segment_duration))
                      (real_of_int (frame_sample_rate cfg))\<bar>\<rfloor>
             else - \<lfloor>\<bar>fdiv ar (fmul ar rate (real_of_int segment_duration))
                        (real_of_int (frame_sample_rate cfg))\<bar>\<rfloor>)
     \<and> (\<forall>cands. candidate_segments ar cfg motion_scores rate segment_duration = Inr cands \<longrightarrow>
           (\<forall>c \<in> set cands. \<exists>k::nat. 0 < ws div 2
              \<and> int k * (ws div 2) + ws \<le> int (length motion_scores)
              \<and> c \<in> set (window_segments ar cfg motion_scores
                    (score_threshold ar motion_scores) ws (int k * (ws div 2))))
         \<and> (0 < ws div 2 \<longrightarrow>
              (\<forall>k::nat. int k * (ws div 2) + ws < int (length motion_scores) \<longrightarrow>
                 set (window_segments ar cfg motion_scores (score_threshold ar motion_scores) ws
                        (int k * (ws div 2))) \<subseteq> set cands)))
     \<and> (\<forall>segs. motion_scores \<noteq> []
           \<and> extract_segments_from_scores ar cfg motion_scores rate segment_duration = Inr segs
           \<longrightarrow> (\<exists>cands. candidate_segments ar cfg motion_scores rate segment_duration = Inr cands
                  \<and> segs = remove_overlapping_segments (sorted_by_score_desc cands)))"
proof -
  let ?q = "fdiv ar (fmul ar rate (real_of_int segment_duration))
              (real_of_int (frame_sample_rate cfg))"
  let ?ws = "py_int ?q"
  have ws: "window_size ar cfg rate segment_duration = Inr ?ws"
    using assms by (simp add: window_size_def)
  have trunc: "?ws = (if ?q \<ge> 0 then \<lfloor>\<bar>?q\<bar>\<rfloor> else - \<lfloor>\<bar>?q\<bar>\<rfloor>)"
    by (rule py_int_trunc)
  have loop: "(\<forall>c \<in> set cands. \<exists>k::nat. 0 < ?ws div 2
              \<and> int k * (?ws div 2) + ?ws \<le> int (length motion_scores)
              \<and> c \<in> set (window_segments ar cfg motion_scores
                    (score_threshold ar motion_scores) ?ws (int k * (?ws div 2))))
         \<and> (0 < ?ws div 2 \<longrightarrow>
              (\<forall>k::nat. int k * (?ws div 2) + ?ws < int (length motion_scores) \<longrightarrow>
                 set (window_segments ar cfg motion_scores (score_threshold ar motion_scores) ?ws
                        (int k * (?ws div 2))) \<subseteq> set cands))"
    if c: "candidate_segments ar cfg motion_scores rate segment_duration = Inr cands" for cands
  proof -
    note w = candidate_segments_windows [OF c ws]
    have "\<exists>k::nat. 0 < ?ws div 2 \<and> int k * (?ws div 2) + ?ws \<le> int (length motion_scores)
              \<and> c \<in> set (window_segments ar cfg motion_scores
                    (score_threshold ar motion_scores) ?ws (int k * (?ws div 2)))"
      if "c \<in> set cands" for c
    proof -
      from w that obtain k :: nat where "0 < ?ws div 2"
        "int k * (?ws div 2) + ?ws < int (length motion_scores)"
        "c \<in> set (window_segments ar cfg motion_scores
                    (score_threshold ar motion_scores) ?ws (int k * (?ws div 2)))"
        by blast
      then show ?thesis by (intro exI [of _ k]) simp
    qed
    with w show ?thesis by blast
  qed
  have ext: "\<exists>cands. candidate_segments ar cfg motion_scores rate segment_duration = Inr cands
                  \<and> segs = remove_overlapping_segments (sorted_by_score_desc cands)"
    if "motion_scores \<noteq> []
        \<and> extract_segments_from_scores ar cfg motion_scores rate segment_duration = Inr segs"
    for segs
    using that by (auto simp: extract_segments_from_scores_def split: sum.splits)
  show ?thesis
  proof (intro exI [of _ ?ws] conjI allI impI)
    show "window_size ar cfg rate segment_duration = Inr ?ws" by (rule ws)
    show "?ws = (if ?q \<ge> 0 then \<lfloor>\<bar>?q\<bar>\<rfloor> else - \<lfloor>\<bar>?q\<bar>\<rfloor>)" by (rule trunc)
  qed (use loop ext in blast)+
qed

theorem window_size_truncates_and_starts_witness:
  "frame_sample_rate example_config \<noteq> 0
   \<and> example_samples \<noteq> []
   \<and> window_size exact_arith example_config 1 2 = Inr 2
   \<and> candidate_segments exact_arith example_config example_samples 1 2 = Inr example_candidates
   \<and> extract_segments_from_scores exact_arith example_config example_samples 1 2
       = Inr example_segments
   \<and> example_segments = remove_overlapping_segments (sorted_by_score_desc example_candidates)"
proof -
  have h: "frame_sample_rate example_config \<noteq> 0" by (simp add: example_config_def)
  have ne: "example_samples \<noteq> []" by (simp add: example_samples_def)
  from window_size_truncates_and_starts [OF h, of exact_arith 1 2 example_samples]
  obtain ws where
    "\<forall>segs. example_samples \<noteq> []
       \<and> extract_segments_from_scores exact_arith example_config example_samples 1 2 = Inr segs
       \<longrightarrow> (\<exists>cands. candidate_segments exact_arith example_config example_samples 1 2 = Inr cands
              \<and> segs = remove_overlapping_segments (sorted_by_score_desc cands))"
    by blast
  with ne example_extract obtain cands where
    "candidate_segments exact_arith example_config example_samples 1 2 = Inr cands"
    "example_segments = remove_overlapping_segments (sorted_by_score_desc cands)"
    by blast
  with example_candidate_segments
  have "example_segments = remove_overlapping_segments (sorted_by_score_desc example_candidates)"
    by simp
  with h ne example_window_size example_candidate_segments example_extract
  show ?thesis by blast
qed

lemma upt_2: "[0..<2] = [0, 1]"
  by (simp add: upt_conv_Cons)

lemma late_sample_frames:
  "sample_frames exact_arith example_config example_vision (fps late_video)
     (frames late_video) None 0 [] = Inr late_raw_samples"
  by (simp add: example_config_def example_vision_def late_video_def late_raw_samples_def
      exact_arith_def)

lemma late_normalize: "normalize_scores late_raw_samples = Inr late_samples"
  by (simp add: normalize_scores_def late_samples_def late_raw_samples_def)

lemma late_threshold: "score_threshold exact_arith late_samples = 3 / 4"
  by (simp add: score_threshold_def exact_arith_def exact_mean_def exact_std_def
      power2_eq_square late_samples_def sqrt_quarter)

lemma late_candidate_segments:
  "candidate_segments exact_arith example_config late_samples 1 4 = Inr []"
proof -
  have ws: "window_size exact_arith example_config 1 4 = Inr 4"
    by (simp add: window_size_def example_config_def py_int_def exact_arith_def)
  have starts: "window_starts 4 (length late_samples) = Inr [0, 2]"
    by (simp add: window_starts_def step_size_def py_range_def late_samples_def upt_2)
  have "concat (map (window_segments exact_arith example_config late_samples (3 / 4) 4)
      [0, 2]) = []"
    by (simp add: window_segments_def window_candidate_def py_slice_def exact_mean_def
        late_samples_def exact_arith_def)
  with candidate_segments_unfold [OF ws starts] show ?thesis
    by (simp only: late_threshold)
qed

lemma late_motion_pipeline:
  "motion_pipeline exact_arith example_config example_vision late_video 4 = Inr []"
proof -
  have ne: "late_samples \<noteq> []" by (simp add: late_samples_def)
  have "remove_overlapping_segments (sorted_by_score_desc ([] :: real segment list)) = []"
    by (simp add: sorted_by_score_desc_def remove_overlapping_segments_def)
  with extract_segments_unfold [OF ne late_candidate_segments]
  have "extract_segments_from_scores exact_arith example_config late_samples 1 4 = Inr []"
    by simp
  moreover have "fps late_video = 1" "opened late_video" by (simp_all add: late_video_def)
  moreover have "late_raw_samples \<noteq> []" by (simp add: late_raw_samples_def)
  ultimately show ?thesis
    using late_sample_frames by (simp add: motion_pipeline_def late_normalize)
qed

text \<open>
  C3 as stated fails. At 29.96875 frames per second, a target of 30 seconds and a
  stride of 2 the quotient is 449.53125, computed without rounding: the code's window
  has 449 samples, the rounded value is 450. In the video \<open>late_video\<close>, with a window of
  4 samples and a step of 2 over 8 samples, the loop evaluates the windows at 0 and 2
  and collects nothing; the window at 4 ends exactly at the end of the sequence, passes
  the threshold and the duration limits, and is not evaluated.
\<close>

theorem window_size_round_counterexample:
  "window_size exact_arith reference_config (959 / 32) 30 = Inr 449
   \<and> round ((959 / 32) * real_of_int 30 / real_of_int (frame_sample_rate reference_config))
       = (450 :: int)
   \<and> window_size exact_arith example_config (fps late_video) 4 = Inr 4
   \<and> (4 :: int) + 4 \<le> int (length late_samples)
   \<and> window_segments exact_arith example_config late_samples
        (score_threshold exact_arith late_samples) 4 4
       = [\<lparr>seg_start = 5, seg_end = 8, seg_duration = 3, seg_score = 1, seg_confidence = 1\<rparr>]
   \<and> candidate_segments exact_arith example_config late_samples (fps late_video) 4 = Inr []
   \<and> motion_pipeline exact_arith example_config example_vision late_video 4 = Inr []"
proof -
  have "window_size exact_arith reference_config (959 / 32) 30 = Inr 449"
    by (simp add: window_size_def reference_config_def py_int_def exact_arith_def)
  moreover have "round ((959 / 32) * real_of_int 30
      / real_of_int (frame_sample_rate reference_config)) = (450 :: int)"
    by (simp add: reference_config_def round_def)
  moreover have "window_size exact_arith example_config (fps late_video) 4 = Inr 4"
    by (simp add: window_size_def example_config_def py_int_def exact_arith_def late_video_def)
  moreover have "(4 :: int) + 4 \<le> int (length late_samples)"
    by (simp add: late_samples_def)
  moreover have "window_segments exact_arith example_config late_samples
        (score_threshold exact_arith late_samples) 4 4
       = [\<lparr>seg_start = 5, seg_end = 8, seg_duration = 3, seg_score = 1, seg_confidence = 1\<rparr>]"
    unfolding late_threshold
    by (simp add: window_segments_def window_candidate_def py_slice_def exact_mean_def
        clamp_candidate_def clamp_window_def late_samples_def example_config_def
        exact_arith_def)
  moreover have "candidate_segments exact_arith example_config late_samples (fps late_video) 4
      = Inr []"
    using late_candidate_segments by (simp add: late_video_def)
  ultimately show ?thesis using late_motion_pipeline by blast
qed

subsection \<open>The threshold\<close>

lemma remove_overlapping_segments_subset:
  "set (remove_overlapping_segments segs) \<subseteq> set segs"
proof -
  obtain ys where "remove_overlapping_loop segs [] = [] @ ys" "subseq ys segs"
    using remove_overlapping_loop_prefix [of segs "[]"] by blast
  then have "set (remove_overlapping_loop segs []) \<subseteq> set segs"
    by (metis append_Nil set_nths_subset subseq_conv_nths)
  then show ?thesis by (simp add: remove_overlapping_segments_def)
qed

lemma extract_segments_subset:
  assumes "extract_segments_from_scores ar cfg motion_scores rate segment_duration = Inr segs"
    and "s \<in> set segs"
  shows "\<exists>cands. candidate_segments ar cfg motion_scores rate segment_duration = Inr cands
     \<and> s \<in> set cands"
proof -
  from assms have ne: "motion_scores \<noteq> []"
    by (auto simp: extract_segments_from_scores_def)
  with assms(1) obtain cands where
    c: "candidate_segments ar cfg motion_scores rate segment_duration = Inr cands"
    and "segs = remove_overlapping_segments (sorted_by_score_desc cands)"
    by (auto simp: extract_segments_from_scores_def split: sum.splits)
  with assms(2) remove_overlapping_segments_subset
  have "s \<in> set (sorted_by_score_desc cands)" by blast
  then have "s \<in> set cands" by (simp add: sorted_by_score_desc_def)
  with c show ?thesis by blast
qed

lemma window_candidate_eq:
  assumes "0 \<le> i" "0 < ws" "nat i + nat ws \<le> length motion_scores"
  shows "window_candidate ar motion_scores threshold ws i =
     (if np_mean ar (map normalized_score (take (nat ws) (drop (nat i) motion_scores)))
           > threshold
      then Some (time (motion_scores ! nat i), time (motion_scores ! (nat i + nat ws - 1)),
             np_mean ar (map normalized_score (take (nat ws) (drop (nat i) motion_scores))))
      else None)"
proof -
  let ?window = "take (nat ws) (drop (nat i) motion_scores)"
  have sl: "py_slice motion_scores i (i + ws) = ?window"
    using assms by (intro py_slice_window) auto
  have len: "length ?window = nat ws" using assms by simp
  then have ne: "?window \<noteq> []" using assms by auto
  have h: "hd ?window = motion_scores ! nat i"
    using assms ne by (simp add: hd_conv_nth)
  have "last ?window = ?window ! (nat ws - 1)"
    using ne len by (simp add: last_conv_nth)
  also have "\<dots> = motion_scores ! (nat i + nat ws - 1)"
    using assms by simp
  finally have l: "last ?window = motion_scores ! (nat i + nat ws - 1)" .
  show ?thesis
    unfolding window_candidate_def sl Let_def using ne by (simp add: h l)
qed

lemma window_segments_eq:
  assumes "0 \<le> i" "0 < ws" "nat i + nat ws \<le> length motion_scores"
  shows "window_segments ar cfg motion_scores threshold ws i =
     (if np_mean ar (map normalized_score (take (nat ws) (drop (nat i) motion_scores)))
           > threshold
      then clamp_candidate ar cfg motion_scores
             (time (motion_scores ! nat i), time (motion_scores ! (nat i + nat ws - 1)),
              np_mean ar (map normalized_score (take (nat ws) (drop (nat i) motion_scores))))
      else [])"
  by (simp add: window_segments_def window_candidate_eq [OF assms])

lemma clamp_candidate_mem:
  assumes "s \<in> set (clamp_candidate ar cfg motion_scores (a, b, avg))"
  shows "seg_score s = avg \<and> MIN_CLIP_LENGTH cfg \<le> seg_duration s
    \<and> seg_duration s \<le> MAX_CLIP_LENGTH cfg
    \<and> clamp_window ar cfg motion_scores a b = (seg_start s, seg_end s, seg_duration s)"
  using assms by (auto simp: clamp_candidate_def split: prod.splits if_splits)

lemma window_index:
  fixes k :: nat and ws :: int
  assumes "0 < ws div 2" "int k * (ws div 2) + ws \<le> int len"
  shows "0 \<le> int k * (ws div 2)" "0 < ws"
    "nat (int k * (ws div 2)) + nat ws \<le> len"
proof -
  show "0 \<le> int k * (ws div 2)" using assms(1) by simp
  show "0 < ws" using assms(1) by linarith
  then show "nat (int k * (ws div 2)) + nat ws \<le> len"
    using assms \<open>0 \<le> int k * (ws div 2)\<close> by linarith
qed

text \<open>
  C6. For a non-empty sequence of normalised scores the threshold is the mean of all
  of them plus half their standard deviation, as the program's arithmetic computes
  them; it depends on the whole sequence only. A window inside the sequence becomes a
  candidate if and only if the average of its normalised scores is strictly greater
  than this threshold. In the loop this is the only test before the duration clamp:
  every collected segment is the clamp of a window whose average is above the
  threshold and carries that average as its score, every evaluated window above the
  threshold is handed to the clamp and what the clamp yields is collected, and an
  evaluated window that is not above the threshold yields nothing. Every returned
  segment has a score above the threshold.
\<close>

theorem score_threshold_mean_half_std:
  assumes "motion_scores \<noteq> []"
  shows "score_threshold ar motion_scores =
       fadd ar (np_mean ar (map normalized_score motion_scores))
         (fmul ar (np_std ar (map normalized_score motion_scores)) 0.5)
   \<and> (0 \<le> i \<and> 0 < ws \<and> nat i + nat ws \<le> length motion_scores \<longrightarrow>
        (window_candidate ar motion_scores (score_threshold ar motion_scores) ws i \<noteq> None \<longleftrightarrow>
         np_mean ar (map normalized_score (take (nat ws) (drop (nat i) motion_scores)))
           > fadd ar (np_mean ar (map normalized_score motion_scores))
               (fmul ar (np_std ar (map normalized_score motion_scores)) 0.5)))
   \<and> (candidate_segments ar cfg motion_scores rate segment_duration = Inr cands
        \<and> window_size ar cfg rate segment_duration = Inr w \<longrightarrow>
        (\<forall>c \<in> set cands. \<exists>k::nat.
            int k * (w div 2) + w \<le> int (length motion_scores)
          \<and> np_mean ar (map normalized_score
                (take (nat w) (drop (nat (int k * (w div 2))) motion_scores)))
              > fadd ar (np_mean ar (map normalized_score motion_scores))
                  (fmul ar (np_std ar (map normalized_score motion_scores)) 0.5)
          \<and> seg_score c = np_mean ar (map normalized_score
                (take (nat w) (drop (nat (int k * (w div 2))) motion_scores))))
      \<and> (\<forall>k::nat. 0 < w div 2 \<and> int k * (w div 2) + w < int (length motion_scores)
            \<and> np_mean ar (map normalized_score
                (take (nat w) (drop (nat (int k * (w div 2))) motion_scores)))
              > fadd ar (np_mean ar (map normalized_score motion_scores))
                  (fmul ar (np_std ar (map normalized_score motion_scores)) 0.5)
          \<longrightarrow> set (clamp_candidate ar cfg motion_scores
                 (time (motion_scores ! nat (int k * (w div 2))),
                  time (motion_scores ! (nat (int k * (w div 2)) + nat w - 1)),
                  np_mean ar (map normalized_score
                    (take (nat w) (drop (nat (int k * (w div 2))) motion_scores)))))
               \<subseteq> set cands)
      \<and> (\<forall>k::nat. 0 < w div 2 \<and> int k * (w div 2) + w < int (length motion_scores)
            \<and> \<not> np_mean ar (map normalized_score
                (take (nat w) (drop (nat (int k * (w div 2))) motion_scores)))
              > fadd ar (np_mean ar (map normalized_score motion_scores))
                  (fmul ar (np_std ar (map normalized_score motion_scores)) 0.5)
          \<longrightarrow> window_segments ar cfg motion_scores (score_threshold ar motion_scores) w
                 (int k * (w div 2)) = []))
   \<and> (extract_segments_from_scores ar cfg motion_scores rate segment_duration = Inr segs \<longrightarrow>
        (\<forall>s \<in> set segs. seg_score s
           > fadd ar (np_mean ar (map normalized_score motion_scores))
               (fmul ar (np_std ar (map normalized_score motion_scores)) 0.5)))"
proof -
  let ?thr = "fadd ar (np_mean ar (map normalized_score motion_scores))
               (fmul ar (np_std ar (map normalized_score motion_scores)) 0.5)"
  let ?avg = "\<lambda>w i. np_mean ar (map normalized_score (take (nat w) (drop (nat i) motion_scores)))"
  have thr: "score_threshold ar motion_scores = ?thr"
    by (simp add: score_threshold_def Let_def)
  have cand_iff: "window_candidate ar motion_scores (score_threshold ar motion_scores) ws i \<noteq> None
      \<longleftrightarrow> ?avg ws i > ?thr"
    if "0 \<le> i \<and> 0 < ws \<and> nat i + nat ws \<le> length motion_scores"
    using that window_candidate_eq [of i ws motion_scores ar "score_threshold ar motion_scores"]
    by (simp add: thr)
  have upper: "\<exists>k::nat. int k * (w div 2) + w \<le> int (length motion_scores)
          \<and> ?avg w (int k * (w div 2)) > ?thr \<and> seg_score c = ?avg w (int k * (w div 2))"
    if c: "candidate_segments ar cfg motion_scores rate segment_duration = Inr cands"
      and w: "window_size ar cfg rate segment_duration = Inr w" and mem: "c \<in> set cands"
    for cands w c
  proof -
    from candidate_segments_windows [OF c w] mem obtain k :: nat where
      k: "0 < w div 2" "int k * (w div 2) + w < int (length motion_scores)"
      "c \<in> set (window_segments ar cfg motion_scores (score_threshold ar motion_scores) w
               (int k * (w div 2)))"
      by blast
    from k(2) have le: "int k * (w div 2) + w \<le> int (length motion_scores)" by simp
    note ix = window_index [OF k(1) le]
    from k(3) have above: "?avg w (int k * (w div 2)) > ?thr"
      and "c \<in> set (clamp_candidate ar cfg motion_scores
         (time (motion_scores ! nat (int k * (w div 2))),
          time (motion_scores ! (nat (int k * (w div 2)) + nat w - 1)),
          ?avg w (int k * (w div 2))))"
      unfolding window_segments_eq [OF ix] thr by (auto split: if_splits)
    from clamp_candidate_mem [OF this(2)] have "seg_score c = ?avg w (int k * (w div 2))"
      by simp
    with le above show ?thesis by blast
  qed
  have lower: "set (clamp_candidate ar cfg motion_scores
                 (time (motion_scores ! nat (int k * (w div 2))),
                  time (motion_scores ! (nat (int k * (w div 2)) + nat w - 1)),
                  ?avg w (int k * (w div 2)))) \<subseteq> set cands"
    if c: "candidate_segments ar cfg motion_scores rate segment_duration = Inr cands"
      and w: "window_size ar cfg rate segment_duration = Inr w"
      and k: "0 < w div 2 \<and> int k * (w div 2) + w < int (length motion_scores)
            \<and> ?avg w (int k * (w div 2)) > ?thr"
    for cands w and k :: nat
  proof -
    from k have le: "int k * (w div 2) + w \<le> int (length motion_scores)" by simp
    from k have pos: "0 < w div 2" by simp
    note ix = window_index [OF pos le]
    from candidate_segments_windows [OF c w] k
    have "set (window_segments ar cfg motion_scores (score_threshold ar motion_scores) w
               (int k * (w div 2))) \<subseteq> set cands" by blast
    then show ?thesis
      unfolding window_segments_eq [OF ix] thr using k by simp
  qed
  have below: "window_segments ar cfg motion_scores (score_threshold ar motion_scores) w
                 (int k * (w div 2)) = []"
    if k: "0 < w div 2 \<and> int k * (w div 2) + w < int (length motion_scores)
            \<and> \<not> ?avg w (int k * (w div 2)) > ?thr"
    for w and k :: nat
  proof -
    from k have le: "int k * (w div 2) + w \<le> int (length motion_scores)" by simp
    from k have pos: "0 < w div 2" by simp
    note ix = window_index [OF pos le]
    show ?thesis unfolding window_segments_eq [OF ix] thr using k by simp
  qed
  have out: "seg_score s > ?thr"
    if e: "extract_segments_from_scores ar cfg motion_scores rate segment_duration = Inr segs"
      and s: "s \<in> set segs" for segs s
  proof -
    from extract_segments_subset [OF e s] obtain cands where
      c: "candidate_segments ar cfg motion_scores rate segment_duration = Inr cands"
      and m: "s \<in> set cands" by blast
    from candidate_segments_set [OF c] obtain w where
      "window_size ar cfg rate segment_duration = Inr w" by blast
    from upper [OF c this m] show ?thesis by auto
  qed
  show ?thesis
    apply (intro conjI impI allI ballI)
    subgoal by (rule thr)
    subgoal using cand_iff by blast
    subgoal for c using upper by blast
    subgoal for k using lower by blast
    subgoal for k by (rule below) blast
    subgoal for s by (rule out)
    done
qed

theorem score_threshold_mean_half_std_witness:
  "example_samples \<noteq> []
   \<and> score_threshold exact_arith example_samples = 3 / 4
   \<and> exact_mean (map normalized_score example_samples) = 1 / 2
   \<and> exact_std (map normalized_score example_samples) = 1 / 2
   \<and> window_candidate exact_arith example_samples (score_threshold exact_arith example_samples)
        2 1 \<noteq> None
   \<and> extract_segments_from_scores exact_arith example_config example_samples 1 2
       = Inr example_segments
   \<and> seg_score (example_segments ! 1) > 3 / 4"
proof -
  have ne: "example_samples \<noteq> []" by (simp add: example_samples_def)
  have m: "exact_mean (map normalized_score example_samples) = 1 / 2"
    by (simp add: exact_mean_def example_samples_def)
  have sd: "exact_std (map normalized_score example_samples) = 1 / 2"
    by (simp add: exact_std_def exact_mean_def power2_eq_square example_samples_def
        sqrt_quarter)
  note inst = score_threshold_mean_half_std [OF ne, where ar = exact_arith and i = 1
      and ws = 2 and cfg = example_config and rate = 1 and segment_duration = 2
      and segs = example_segments and cands = example_candidates and w = 2]
  have thr: "fadd exact_arith (np_mean exact_arith (map normalized_score example_samples))
      (fmul exact_arith (np_std exact_arith (map normalized_score example_samples)) 0.5)
      = 3 / 4"
    using inst [THEN conjunct1] example_threshold by simp
  have range: "(0::int) \<le> 1 \<and> (0::int) < 2 \<and> nat 1 + nat 2 \<le> length example_samples"
    by (simp add: example_samples_def)
  have above: "np_mean exact_arith
      (map normalized_score (take (nat 2) (drop (nat 1) example_samples))) > 3 / 4"
    by (simp add: exact_arith_def exact_mean_def example_samples_def)
  have cand: "window_candidate exact_arith example_samples
      (score_threshold exact_arith example_samples) 2 1 \<noteq> None"
    using inst [THEN conjunct2, THEN conjunct1] range above unfolding thr by blast
  have "example_segments ! 1 \<in> set example_segments" by (simp add: example_segments_def)
  with inst [THEN conjunct2, THEN conjunct2, THEN conjunct2] example_extract
  have "seg_score (example_segments ! 1) > 3 / 4" unfolding thr by blast
  with ne cand example_threshold example_extract m sd show ?thesis by blast
qed

subsection \<open>The duration clamp\<close>



lemma normalize_scores_length:
  assumes "normalize_scores motion_scores = Inr ns"
  shows "length ns = length motion_scores"
proof (cases "motion_scores = []")
  case True
  with assms show ?thesis by (simp add: normalize_scores_def)
next
  case False
  from normalize_scores_eq [OF False] assms show ?thesis by auto
qed




lemma motion_pipeline_Inr:
  assumes "motion_pipeline ar cfg cv v segment_duration = Inr segs" "segs \<noteq> []"
  shows "\<exists>raw ms. sample_frames ar cfg cv (fps v) (frames v) None 0 [] = Inr raw
     \<and> raw \<noteq> [] \<and> normalize_scores raw = Inr ms
     \<and> extract_segments_from_scores ar cfg ms (fps v) segment_duration = Inr segs"
  using assms
  by (auto simp: motion_pipeline_def split: if_splits sum.splits)






lemma motion_pipeline_mem:
  assumes "motion_pipeline ar cfg cv v segment_duration = Inr segs" "s \<in> set segs"
  shows "\<exists>motion_scores.
     extract_segments_from_scores ar cfg motion_scores (fps v) segment_duration = Inr segs"
  using assms
  by (auto simp: motion_pipeline_def split: if_splits sum.splits)





subsection \<open>Exceptions of the local pipeline\<close>

lemma detect_segments_with_motion_returns:
  "\<exists>segs. detect_segments_with_motion ar cfg cv v d = Inr segs"
  by (simp add: detect_segments_with_motion_def split: sum.splits)

lemma detect_segments_with_api_returns:
  "\<exists>segs. detect_segments_with_api ar cfg cv api v d = Inr segs"
  using detect_segments_with_motion_returns [of ar cfg cv v d]
  by (auto simp: detect_segments_with_api_def split: sum.splits)

lemma motion_error_caught:
  "motion_pipeline ar cfg cv v d = Inl e \<Longrightarrow> detect_segments_with_motion ar cfg cv v d = Inr []"
  by (simp add: detect_segments_with_motion_def)

lemma motion_empty:
  "motion_pipeline ar cfg cv v d = Inr [] \<Longrightarrow> detect_segments_with_motion ar cfg cv v d = Inr []"
  by (simp add: detect_segments_with_motion_def)

lemma extract_no_candidates:
  assumes "window_size ar cfg rate d = Inr ws"
    "window_starts ws (length motion_scores) = Inr starts"
    "\<forall>i \<in> set starts. window_candidate ar motion_scores (score_threshold ar motion_scores) ws i = None"
  shows "extract_segments_from_scores ar cfg motion_scores rate d = Inr []"
proof (cases "motion_scores = []")
  case True
  then show ?thesis by (simp add: extract_segments_from_scores_def)
next
  case False
  have "concat (map (window_segments ar cfg motion_scores (score_threshold ar motion_scores) ws)
      starts) = []"
    using assms(3) by (simp add: window_segments_def)
  with candidate_segments_unfold [OF assms(1,2)]
  have "candidate_segments ar cfg motion_scores rate d = Inr []" by simp
  from extract_segments_unfold [OF False this] show ?thesis
    by (simp add: sorted_by_score_desc_def remove_overlapping_segments_def)
qed

lemma window_starts_too_long:
  assumes "window_starts ws len = Inr starts" "int len \<le> ws"
  shows "starts = []"
proof (cases "0 < step_size ws")
  case True
  have "i \<notin> set starts" for i
  proof
    assume "i \<in> set starts"
    with window_starts_mem [OF True assms(1)] obtain k :: nat where
      "int k * step_size ws + ws < int len" by blast
    moreover have "0 \<le> int k * step_size ws" using True by simp
    ultimately show False using assms(2) by linarith
  qed
  then show ?thesis by (cases starts) auto
next
  case False
  have "step_size ws \<noteq> 0" using assms(1) by (auto simp: window_starts_def py_range_def)
  with False have "step_size ws < 0" by simp
  from window_starts_negative_step [OF this] assms(1) show ?thesis by simp
qed

lemma window_starts_single_sample:
  assumes "window_starts ws 1 = Inr starts"
  shows "starts = []"
proof (cases "0 < step_size ws")
  case True
  then have "2 \<le> ws" by (simp add: step_size_def)
  with assms show ?thesis by (intro window_starts_too_long [of ws 1]) auto
next
  case False
  have "step_size ws \<noteq> 0" using assms by (auto simp: window_starts_def py_range_def)
  with False have "step_size ws < 0" by simp
  from window_starts_negative_step [OF this] assms show ?thesis by simp
qed

lemma extract_single_sample:
  assumes "length motion_scores = 1"
  shows "extract_segments_from_scores ar cfg motion_scores rate d = Inr []
     \<or> (\<exists>e. extract_segments_from_scores ar cfg motion_scores rate d = Inl e)"
proof (cases "window_size ar cfg rate d")
  case (Inl e)
  with assms show ?thesis
    by (auto simp: extract_segments_from_scores_def candidate_segments_def)
next
  case (Inr ws)
  show ?thesis
  proof (cases "window_starts ws (length motion_scores)")
    case (Inl e)
    with Inr assms show ?thesis
      by (auto simp: extract_segments_from_scores_def candidate_segments_def)
  next
    case starts: (Inr starts)
    with assms window_starts_single_sample have "starts = []" by simp
    with extract_no_candidates [OF Inr starts] show ?thesis by simp
  qed
qed

lemma motion_few_samples:
  assumes "opened v" "sample_frames ar cfg cv (fps v) (frames v) None 0 [] = Inr motion_scores"
    "length motion_scores \<le> 1"
  shows "detect_segments_with_motion ar cfg cv v d = Inr []"
proof (cases "motion_scores = []")
  case True
  with assms have "motion_pipeline ar cfg cv v d = Inr []" by (simp add: motion_pipeline_def)
  then show ?thesis by (rule motion_empty)
next
  case False
  with assms(3) have len: "length motion_scores = 1" by (cases motion_scores) auto
  obtain ns where ns: "normalize_scores motion_scores = Inr ns"
    using normalize_scores_eq [OF False] by blast
  with len have "length ns = 1" by (simp add: normalize_scores_length)
  from extract_single_sample [OF this, of ar cfg "fps v" d]
  have "motion_pipeline ar cfg cv v d = Inr [] \<or> (\<exists>e. motion_pipeline ar cfg cv v d = Inl e)"
    using assms(1,2) False ns by (auto simp: motion_pipeline_def)
  then show ?thesis using motion_empty motion_error_caught by blast
qed

lemma motion_no_candidates:
  assumes "opened v" "sample_frames ar cfg cv (fps v) (frames v) None 0 [] = Inr motion_scores"
    "normalize_scores motion_scores = Inr ns"
    "window_size ar cfg (fps v) d = Inr ws" "window_starts ws (length ns) = Inr starts"
    "\<forall>i \<in> set starts. window_candidate ar ns (score_threshold ar ns) ws i = None"
  shows "detect_segments_with_motion ar cfg cv v d = Inr []"
proof -
  from extract_no_candidates [OF assms(4,5,6)]
  have "motion_pipeline ar cfg cv v d = Inr []"
    using assms(1,2,3) by (simp add: motion_pipeline_def)
  then show ?thesis by (rule motion_empty)
qed

text \<open>
  C2. Detection never hands an exception to its caller: for every configuration,
  video, remote outcome and duration argument \<open>detect_high_action_segments\<close> returns a
  segment sequence. Every exception raised inside the local pipeline is caught by
  \<open>_detect_segments_with_motion\<close> and becomes the empty sequence; in particular the
  result is empty for a source that does not open, for zero or one motion samples, and
  when no window clears the threshold.
\<close>

theorem detection_never_raises:
  "(\<exists>segs. detect_high_action_segments ar cfg cv api v segment_duration_arg = Inr segs)
   \<and> (motion_pipeline ar cfg cv v d = Inl e \<longrightarrow> detect_segments_with_motion ar cfg cv v d = Inr [])
   \<and> (\<not> opened v \<longrightarrow> motion_pipeline ar cfg cv v d = Inl ValueError
          \<and> detect_segments_with_motion ar cfg cv v d = Inr [])
   \<and> (opened v \<and> sample_frames ar cfg cv (fps v) (frames v) None 0 [] = Inr motion_scores
        \<and> length motion_scores \<le> 1 \<longrightarrow> detect_segments_with_motion ar cfg cv v d = Inr [])
   \<and> (opened v \<and> sample_frames ar cfg cv (fps v) (frames v) None 0 [] = Inr motion_scores
        \<and> normalize_scores motion_scores = Inr ns
        \<and> window_size ar cfg (fps v) d = Inr ws \<and> window_starts ws (length ns) = Inr starts
        \<and> (\<forall>i \<in> set starts. window_candidate ar ns (score_threshold ar ns) ws i = None)
        \<longrightarrow> detect_segments_with_motion ar cfg cv v d = Inr [])"
proof (intro conjI impI)
  show "\<exists>segs. detect_high_action_segments ar cfg cv api v segment_duration_arg = Inr segs"
    by (simp add: detect_high_action_segments_def Let_def
        detect_segments_with_motion_returns detect_segments_with_api_returns)
next
  assume "motion_pipeline ar cfg cv v d = Inl e"
  then show "detect_segments_with_motion ar cfg cv v d = Inr []" by (rule motion_error_caught)
next
  assume "\<not> opened v"
  then show "motion_pipeline ar cfg cv v d = Inl ValueError" by (simp add: motion_pipeline_def)
  then show "detect_segments_with_motion ar cfg cv v d = Inr []" by (rule motion_error_caught)
next
  assume "opened v \<and> sample_frames ar cfg cv (fps v) (frames v) None 0 [] = Inr motion_scores
        \<and> length motion_scores \<le> 1"
  then show "detect_segments_with_motion ar cfg cv v d = Inr []"
    using motion_few_samples by blast
next
  assume "opened v \<and> sample_frames ar cfg cv (fps v) (frames v) None 0 [] = Inr motion_scores
        \<and> normalize_scores motion_scores = Inr ns
        \<and> window_size ar cfg (fps v) d = Inr ws \<and> window_starts ws (length ns) = Inr starts
        \<and> (\<forall>i \<in> set starts. window_candidate ar ns (score_threshold ar ns) ws i = None)"
  then show "detect_segments_with_motion ar cfg cv v d = Inr []"
    using motion_no_candidates by blast
qed

theorem detection_never_raises_witness:
  "\<not> opened (example_video\<lparr>opened := False\<rparr>)
   \<and> motion_pipeline exact_arith example_config example_vision (example_video\<lparr>opened := False\<rparr>) 3
       = Inl ValueError
   \<and> detect_segments_with_motion exact_arith example_config example_vision
         (example_video\<lparr>opened := False\<rparr>) 3 = Inr []
   \<and> (\<exists>segs. detect_high_action_segments exact_arith example_config example_vision
         (Request_raises OSError) (example_video\<lparr>opened := False\<rparr>) None = Inr segs)
   \<and> sample_frames exact_arith example_config example_vision 1 [0, 1] None 0 []
       = Inr [\<lparr>frame = 1, time = 1, score = 1\<rparr>]
   \<and> detect_segments_with_motion exact_arith example_config example_vision
         \<lparr>opened = True, fps = 1, total_frames = 2, frames = [0, 1]\<rparr> 3 = Inr []"
proof -
  let ?closed = "example_video\<lparr>opened := False\<rparr>"
  let ?short = "\<lparr>opened = True, fps = 1, total_frames = 2, frames = [0, 1 :: real]\<rparr>"
  have closed: "\<not> opened ?closed" by simp
  have samples: "sample_frames exact_arith example_config example_vision 1 [0, 1] None 0 []
      = Inr [\<lparr>frame = 1, time = 1, score = 1\<rparr>]"
    by (simp add: example_config_def example_vision_def exact_arith_def)
  note unopened = detection_never_raises [where ar = exact_arith and cfg = example_config
      and cv = example_vision and v = ?closed and d = 3 and api = "Request_raises OSError"
      and segment_duration_arg = None]
  note single = detection_never_raises [where ar = exact_arith and cfg = example_config
      and cv = example_vision and v = ?short and d = 3
      and motion_scores = "[\<lparr>frame = 1, time = 1, score = 1\<rparr>]"]
  have "motion_pipeline exact_arith example_config example_vision ?closed 3 = Inl ValueError"
    "detect_segments_with_motion exact_arith example_config example_vision ?closed 3 = Inr []"
    "\<exists>segs. detect_high_action_segments exact_arith example_config example_vision
         (Request_raises OSError) ?closed None = Inr segs"
    using unopened closed by blast+
  moreover have "detect_segments_with_motion exact_arith example_config example_vision ?short 3 = Inr []"
    using single samples by simp
  ultimately show ?thesis using closed samples by blast
qed

lemma stride_sample_frames:
  "sample_frames exact_arith reference_config example_vision (fps stride_video)
     (frames stride_video) None 0 [] = Inr stride_raw_samples"
  by (simp add: reference_config_def example_vision_def stride_video_def
      stride_raw_samples_def exact_arith_def)

lemma stride_normalize: "normalize_scores stride_raw_samples = Inr stride_samples"
  by (simp add: normalize_scores_def stride_samples_def stride_raw_samples_def)

lemma extract_zero_step:
  assumes "motion_scores \<noteq> []" "window_size ar cfg rate d = Inr ws" "step_size ws = 0"
  shows "extract_segments_from_scores ar cfg motion_scores rate d = Inl ValueError"
  using assms
  by (simp add: extract_segments_from_scores_def candidate_segments_def window_starts_def
      py_range_def)

lemma extract_negative_window:
  assumes "window_size ar cfg rate d = Inr ws" "ws < 0"
  shows "extract_segments_from_scores ar cfg motion_scores rate d = Inr []"
proof -
  from assms(2) have "step_size ws < 0" by (simp add: step_size_def)
  then have "window_starts ws (length motion_scores) = Inr []"
    by (rule window_starts_negative_step)
  from extract_no_candidates [OF assms(1) this] show ?thesis by simp
qed

text \<open>
  C8, as amended. A window length of 0 or 1 gives a step of zero, and \<open>range\<close> raises
  \<open>ValueError\<close> inside the local pipeline as soon as there is a motion sample. The error
  does not reach the caller: the handler of \<open>_detect_segments_with_motion\<close> catches it as
  it catches the data-driven failures, and detection returns the empty sequence. A
  negative window length raises nothing: the loop does not run.
\<close>

theorem zero_step_error_is_swallowed:
  assumes "opened v"
    and "sample_frames ar cfg cv (fps v) (frames v) None 0 [] = Inr motion_scores"
    and "motion_scores \<noteq> []"
    and "window_size ar cfg (fps v) d = Inr ws"
  shows "(step_size ws = 0 \<longleftrightarrow> ws = 0 \<or> ws = 1)
   \<and> (step_size ws = 0 \<longrightarrow>
        motion_pipeline ar cfg cv v d = Inl ValueError
      \<and> detect_segments_with_motion ar cfg cv v d = Inr []
      \<and> (\<exists>segs. detect_high_action_segments ar cfg cv api v (Some d) = Inr segs)
      \<and> (\<not> (use_clipping_api cfg \<and> key_present cfg) \<longrightarrow>
           detect_high_action_segments ar cfg cv api v (Some d) = Inr []))
   \<and> (ws < 0 \<longrightarrow> motion_pipeline ar cfg cv v d = Inr []
        \<and> detect_segments_with_motion ar cfg cv v d = Inr [])"
proof (intro conjI impI)
  show "step_size ws = 0 \<longleftrightarrow> ws = 0 \<or> ws = 1"
    by (auto simp: step_size_def)
  obtain ns where ns: "normalize_scores motion_scores = Inr ns"
    using normalize_scores_eq [OF assms(3)] by blast
  then have "length ns = length motion_scores" by (rule normalize_scores_length)
  with assms(3) have ne: "ns \<noteq> []" by auto
  have pipe: "motion_pipeline ar cfg cv v d = extract_segments_from_scores ar cfg ns (fps v) d"
    using assms(1,2,3) ns by (simp add: motion_pipeline_def)
  {
    assume zero: "step_size ws = 0"
    from extract_zero_step [OF ne assms(4) zero] pipe
    show raised: "motion_pipeline ar cfg cv v d = Inl ValueError" by simp
    then show caught: "detect_segments_with_motion ar cfg cv v d = Inr []"
      by (rule motion_error_caught)
    show "\<exists>segs. detect_high_action_segments ar cfg cv api v (Some d) = Inr segs"
      by (simp add: detect_high_action_segments_def Let_def
          detect_segments_with_motion_returns detect_segments_with_api_returns)
    assume "\<not> (use_clipping_api cfg \<and> key_present cfg)"
    with caught show "detect_high_action_segments ar cfg cv api v (Some d) = Inr []"
      by (auto simp: detect_high_action_segments_def)
  }
  {
    assume "ws < 0"
    from extract_negative_window [OF assms(4) this] pipe
    show "motion_pipeline ar cfg cv v d = Inr []" by simp
    then show "detect_segments_with_motion ar cfg cv v d = Inr []" by (rule motion_empty)
  }
qed

theorem zero_step_error_is_swallowed_witness:
  "opened stride_video
   \<and> sample_frames exact_arith reference_config example_vision (fps stride_video) (frames stride_video)
        None 0 [] = Inr stride_raw_samples
   \<and> stride_raw_samples \<noteq> []
   \<and> window_size exact_arith reference_config (fps stride_video) 0 = Inr 0
   \<and> step_size 0 = 0
   \<and> motion_pipeline exact_arith reference_config example_vision stride_video 0 = Inl ValueError
   \<and> detect_segments_with_motion exact_arith reference_config example_vision stride_video 0 = Inr []"
proof -
  have op: "opened stride_video" by (simp add: stride_video_def)
  have ne: "stride_raw_samples \<noteq> []" by (simp add: stride_raw_samples_def)
  have ws: "window_size exact_arith reference_config (fps stride_video) 0 = Inr 0"
    by (simp add: window_size_def reference_config_def py_int_def exact_arith_def)
  have step: "step_size 0 = 0" by (simp add: step_size_def)
  from zero_step_error_is_swallowed [OF op stride_sample_frames ne ws] step
  have "motion_pipeline exact_arith reference_config example_vision stride_video 0 = Inl ValueError"
    "detect_segments_with_motion exact_arith reference_config example_vision stride_video 0 = Inr []"
    by blast+
  with op stride_sample_frames ne ws step show ?thesis by blast
qed

text \<open>
  C8 as stated fails. With the reference configuration and a target duration of 0 the
  window length is 0 and the step is 0; on the seventeen-frame video \<open>range\<close> raises
  \<open>ValueError\<close> inside the local pipeline, and \<open>detect_high_action_segments\<close> returns the
  empty sequence and not the error.
\<close>

theorem zero_step_counterexample:
  "window_size exact_arith reference_config (fps stride_video) 0 = Inr 0
   \<and> window_starts 0 (length stride_samples) = Inl ValueError
   \<and> motion_pipeline exact_arith reference_config example_vision stride_video 0 = Inl ValueError
   \<and> detect_high_action_segments exact_arith reference_config example_vision (Request_raises OSError)
        stride_video (Some 0) = Inr []"
proof -
  have ws: "window_size exact_arith reference_config (fps stride_video) 0 = Inr 0"
    by (simp add: window_size_def reference_config_def py_int_def exact_arith_def)
  have starts: "window_starts 0 (length stride_samples) = Inl ValueError"
    by (simp add: window_starts_def step_size_def py_range_def)
  have ne: "stride_samples \<noteq> []" by (simp add: stride_samples_def)
  have "extract_segments_from_scores exact_arith reference_config stride_samples (fps stride_video) 0
      = Inl ValueError"
    using ne ws starts by (simp add: extract_segments_from_scores_def candidate_segments_def)
  moreover have "opened stride_video" "stride_raw_samples \<noteq> []"
    by (simp_all add: stride_video_def stride_raw_samples_def)
  ultimately have pipe:
    "motion_pipeline exact_arith reference_config example_vision stride_video 0 = Inl ValueError"
    using stride_sample_frames by (simp add: motion_pipeline_def stride_normalize)
  then have "detect_high_action_segments exact_arith reference_config example_vision
      (Request_raises OSError) stride_video (Some 0) = Inr []"
    by (simp add: detect_high_action_segments_def detect_segments_with_motion_def
        reference_config_def)
  with ws starts pipe show ?thesis by blast
qed

subsection \<open>The remote strategy\<close>

lemma detect_segments_with_api_cases:
  "detect_segments_with_api ar cfg cv api v d =
     (case api of
        Request_raises e \<Rightarrow> detect_segments_with_motion ar cfg cv v d
      | Response status_code b \<Rightarrow>
          if status_code = 200
          then (case parse_response ar b of
                  Inl e \<Rightarrow> detect_segments_with_motion ar cfg cv v d
                | Inr segments \<Rightarrow> Inr segments)
          else detect_segments_with_motion ar cfg cv v d)"
proof -
  obtain segs where "detect_segments_with_motion ar cfg cv v d = Inr segs"
    using detect_segments_with_motion_returns by blast
  then show ?thesis
    by (simp add: detect_segments_with_api_def api_request_def
        split: api_outcome.splits sum.splits)
qed

lemma sample_frames_rate_only:
  assumes "frame_sample_rate cfg' = frame_sample_rate cfg"
  shows "sample_frames ar cfg' cv rate fs prev idx acc = sample_frames ar cfg cv rate fs prev idx acc"
  using assms
  by (induction fs arbitrary: prev idx acc) (auto split: sum.splits option.splits)

lemma extract_segments_api_fields:
  "extract_segments_from_scores ar (cfg\<lparr>use_clipping_api := u, clipping_api_key := k\<rparr>) ms rate d
     = extract_segments_from_scores ar cfg ms rate d"
proof -
  have "clamp_window ar (cfg\<lparr>use_clipping_api := u, clipping_api_key := k\<rparr>) ms a b
      = clamp_window ar cfg ms a b" for a b
    by (simp add: clamp_window_def Let_def)
  then have "clamp_candidate ar (cfg\<lparr>use_clipping_api := u, clipping_api_key := k\<rparr>) ms c
      = clamp_candidate ar cfg ms c" for c
    by (simp add: clamp_candidate_def split: prod.splits)
  then have "window_segments ar (cfg\<lparr>use_clipping_api := u, clipping_api_key := k\<rparr>) ms thr ws
      = window_segments ar cfg ms thr ws" for thr ws
    by (intro ext) (simp add: window_segments_def split: option.splits)
  then have "candidate_segments ar (cfg\<lparr>use_clipping_api := u, clipping_api_key := k\<rparr>) ms rate d
      = candidate_segments ar cfg ms rate d"
    by (simp add: candidate_segments_def window_size_def Let_def split: sum.splits)
  then show ?thesis
    by (simp add: extract_segments_from_scores_def)
qed

lemma motion_pipeline_api_fields:
  "motion_pipeline ar (cfg\<lparr>use_clipping_api := u, clipping_api_key := k\<rparr>) cv v d
     = motion_pipeline ar cfg cv v d"
proof -
  have "sample_frames ar (cfg\<lparr>use_clipping_api := u, clipping_api_key := k\<rparr>) cv (fps v)
      (frames v) None 0 [] = sample_frames ar cfg cv (fps v) (frames v) None 0 []"
    by (rule sample_frames_rate_only) simp
  then show ?thesis
    by (simp add: motion_pipeline_def extract_segments_api_fields
        split: sum.splits if_splits)
qed

lemma detect_segments_with_motion_api_fields:
  "detect_segments_with_motion ar (cfg\<lparr>use_clipping_api := u, clipping_api_key := k\<rparr>) cv v d
     = detect_segments_with_motion ar cfg cv v d"
  by (simp add: detect_segments_with_motion_def motion_pipeline_api_fields)

lemma remote_config_selected: "use_clipping_api remote_config" "key_present remote_config"
  by (simp_all add: remote_config_def key_present_def)

lemma remote_config_local:
  "detect_segments_with_motion exact_arith remote_config example_vision example_video 2
     = Inr (map as_json_segment example_segments)"
  unfolding remote_config_def detect_segments_with_motion_api_fields
  by (simp add: detect_segments_with_motion_def example_motion_pipeline)

text \<open>
  C7. When the remote strategy is selected and the request fails, by an exception of
  the transport or by a status code other than 200, the result of
  \<open>detect_high_action_segments\<close> is the result of the local pipeline on the same video
  with the same duration, which is also what the detector returns when the remote
  strategy is switched off.
\<close>

theorem remote_failure_equals_local:
  assumes "use_clipping_api cfg" "key_present cfg"
    and "api = Request_raises e \<or> (api = Response status_code b \<and> status_code \<noteq> 200)"
  shows "detect_high_action_segments ar cfg cv api v segment_duration_arg =
       detect_segments_with_motion ar cfg cv v
         (case segment_duration_arg of None \<Rightarrow> TARGET_CLIP_LENGTH cfg | Some d \<Rightarrow> d)
   \<and> detect_high_action_segments ar cfg cv api v segment_duration_arg =
       detect_high_action_segments ar (cfg\<lparr>use_clipping_api := False\<rparr>) cv api v
         segment_duration_arg"
proof -
  let ?d = "case segment_duration_arg of None \<Rightarrow> TARGET_CLIP_LENGTH cfg | Some d \<Rightarrow> d"
  have "detect_segments_with_api ar cfg cv api v ?d = detect_segments_with_motion ar cfg cv v ?d"
    using assms(3) by (auto simp: detect_segments_with_api_cases)
  with assms(1,2)
  have a: "detect_high_action_segments ar cfg cv api v segment_duration_arg =
      detect_segments_with_motion ar cfg cv v ?d"
    by (simp add: detect_high_action_segments_def)
  have "detect_segments_with_motion ar (cfg\<lparr>use_clipping_api := False\<rparr>) cv v ?d
      = detect_segments_with_motion ar cfg cv v ?d"
    using detect_segments_with_motion_api_fields [where cfg = cfg and u = False
        and k = "clipping_api_key cfg" and cv = cv and v = v and d = ?d]
    by simp
  then have "detect_high_action_segments ar (cfg\<lparr>use_clipping_api := False\<rparr>) cv api v
      segment_duration_arg = detect_segments_with_motion ar cfg cv v ?d"
    by (cases segment_duration_arg) (simp_all add: detect_high_action_segments_def)
  with a show ?thesis by simp
qed

theorem remote_failure_equals_local_witness:
  "use_clipping_api remote_config \<and> key_present remote_config
   \<and> detect_high_action_segments exact_arith remote_config example_vision (Response 500 Not_json)
        example_video None
      = detect_segments_with_motion exact_arith remote_config example_vision example_video 2
   \<and> detect_high_action_segments exact_arith remote_config example_vision (Response 500 Not_json)
        example_video None
      = Inr (map as_json_segment example_segments)"
proof -
  have api: "Response 500 Not_json = Request_raises OSError
      \<or> (Response 500 Not_json = Response 500 Not_json \<and> (500 :: int) \<noteq> 200)" by simp
  have "TARGET_CLIP_LENGTH remote_config = 2"
    by (simp add: remote_config_def example_config_def)
  with remote_failure_equals_local [OF remote_config_selected api,
      where ar = exact_arith and cv = example_vision and v = example_video
        and segment_duration_arg = None]
  have "detect_high_action_segments exact_arith remote_config example_vision (Response 500 Not_json)
        example_video None
      = detect_segments_with_motion exact_arith remote_config example_vision example_video 2"
    by simp
  with remote_config_selected remote_config_local show ?thesis by simp
qed

subsection \<open>The remote response and the overlap invariant\<close>

lemma remote_segments_all_or_nothing:
  "remote_segments ar items = Inr segs \<Longrightarrow>
     length segs = length items
     \<and> (\<forall>k < length items. remote_segment ar (items ! k) = Inr (segs ! k))"
proof (induction items arbitrary: segs)
  case Nil
  then show ?case by simp
next
  case (Cons item items)
  from Cons.prems obtain s rest where s: "remote_segment ar item = Inr s"
    and rest: "remote_segments ar items = Inr rest" and segs: "segs = s # rest"
    by (auto split: sum.splits)
  from Cons.IH [OF rest] have "length rest = length items"
    "\<forall>k < length items. remote_segment ar (items ! k) = Inr (rest ! k)" by simp_all
  with s segs show ?case by (auto simp: nth_Cons split: nat.splits)
qed

lemma remote_segments_item_fails:
  "item \<in> set items \<Longrightarrow> remote_segment ar item = Inl e \<Longrightarrow>
     \<exists>e'. remote_segments ar items = Inl e'"
  by (induction items) (auto split: sum.splits)

lemma remote_segment_Inr_iff:
  "remote_segment ar item = Inr s \<longleftrightarrow>
     (\<exists>kvs st en a b dur. item = JObj kvs
        \<and> dict_lookup kvs ''start_time'' = Some st \<and> json_number st = Some a
        \<and> dict_lookup kvs ''end_time'' = Some en \<and> json_number en = Some b
        \<and> py_sub ar b a = Inr dur
        \<and> s = \<lparr>seg_start = num_value a, seg_end = num_value b,
                seg_duration = num_value dur,
                seg_score = (case dict_lookup kvs ''action_score'' of
                               None \<Rightarrow> JFloat 0.5 | Some x \<Rightarrow> x),
                seg_confidence = (case dict_lookup kvs ''confidence'' of
                               None \<Rightarrow> JFloat 0.5 | Some x \<Rightarrow> x)\<rparr>)"
  by (cases item)
    (auto simp: remote_segment_def getitem_def dict_get_def split: option.splits sum.splits)

lemma remote_segment_sub_fails:
  assumes "dict_lookup kvs ''start_time'' = Some st" "json_number st = Some a"
    "dict_lookup kvs ''end_time'' = Some en" "json_number en = Some b"
    "py_sub ar b a = Inl e"
  shows "remote_segment ar (JObj kvs) = Inl e"
  using assms by (simp add: remote_segment_def getitem_def)

lemma py_sub_Inl_iff:
  "py_sub ar b a = Inl e \<longleftrightarrow>
     e = OverflowError
     \<and> ((\<exists>m y. b = PInt m \<and> a = PFloat y \<and> int_to_float ar m = None)
        \<or> (\<exists>x n. b = PFloat x \<and> a = PInt n \<and> int_to_float ar n = None))"
  by (cases a; cases b) (auto simp: py_sub_def split: option.splits)

lemma parse_response_items:
  "dict_lookup kvs ''segments'' = Some (JArr items) \<Longrightarrow>
     parse_response ar (Json (JObj kvs)) = remote_segments ar items"
  by (simp add: parse_response_def dict_get_def iter_items_def)

text \<open>
  C9, as amended. With the remote strategy selected, the engine falls back to the local
  pipeline, and returns nothing built from the response, for every status code other
  than 200, for every body that is not JSON or not a JSON object, for a value of
  \<open>segments\<close> that cannot be iterated, and for every body in which some item of
  \<open>segments\<close> is not an object with a numeric \<open>start_time\<close> and a numeric \<open>end_time\<close>
  whose difference can be computed; a failure at one item discards the items converted
  before it. The difference cannot be computed, and \<open>OverflowError\<close> is raised, exactly
  when one of the two numbers is a float and the other an integer that has no float.
  The other deviations from the expected body are not failures: without the key
  \<open>segments\<close> the result is the empty sequence, with no fallback, and an item whose
  \<open>start_time\<close> and \<open>end_time\<close> are numbers with a difference gets 0.5 for a missing
  \<open>action_score\<close> or \<open>confidence\<close>, a value of any type being passed on as it is.
\<close>

theorem remote_failure_or_complete_parse:
  assumes "use_clipping_api cfg" "key_present cfg"
  shows "(status_code \<noteq> 200 \<longrightarrow>
        detect_high_action_segments ar cfg cv (Response status_code b) v (Some d)
          = detect_segments_with_motion ar cfg cv v d)
   \<and> (parse_response ar b = Inl e \<longrightarrow>
        detect_high_action_segments ar cfg cv (Response 200 b) v (Some d)
          = detect_segments_with_motion ar cfg cv v d)
   \<and> (parse_response ar b = Inr segs \<longrightarrow>
        detect_high_action_segments ar cfg cv (Response 200 b) v (Some d) = Inr segs)
   \<and> parse_response ar Not_json = Inl JSONDecodeError
   \<and> ((\<forall>kvs. j \<noteq> JObj kvs) \<longrightarrow> parse_response ar (Json j) = Inl AttributeError)
   \<and> (dict_lookup kvs ''segments'' = Some j \<and> iter_items j = Inl e \<longrightarrow>
        parse_response ar (Json (JObj kvs)) = Inl e)
   \<and> (dict_lookup kvs ''segments'' = Some (JArr items) \<and> item \<in> set items
        \<and> \<not> (\<exists>ikvs st en a b' dur. item = JObj ikvs
               \<and> dict_lookup ikvs ''start_time'' = Some st \<and> json_number st = Some a
               \<and> dict_lookup ikvs ''end_time'' = Some en \<and> json_number en = Some b'
               \<and> py_sub ar b' a = Inr dur)
        \<longrightarrow> (\<exists>e'. parse_response ar (Json (JObj kvs)) = Inl e'))
   \<and> (dict_lookup kvs ''segments'' = Some (JArr items)
        \<and> parse_response ar (Json (JObj kvs)) = Inr segs
        \<longrightarrow> length segs = length items
          \<and> (\<forall>k < length items. remote_segment ar (items ! k) = Inr (segs ! k)))
   \<and> (dict_lookup kvs ''segments'' = None \<longrightarrow> parse_response ar (Json (JObj kvs)) = Inr [])
   \<and> (dict_lookup ikvs ''start_time'' = Some st \<and> json_number st = Some a
        \<and> dict_lookup ikvs ''end_time'' = Some en \<and> json_number en = Some b'
        \<longrightarrow> (\<forall>dur. py_sub ar b' a = Inr dur \<longrightarrow>
               remote_segment ar (JObj ikvs) =
                 Inr \<lparr>seg_start = num_value a, seg_end = num_value b',
                      seg_duration = num_value dur,
                      seg_score = (case dict_lookup ikvs ''action_score'' of
                                     None \<Rightarrow> JFloat 0.5 | Some x \<Rightarrow> x),
                      seg_confidence = (case dict_lookup ikvs ''confidence'' of
                                     None \<Rightarrow> JFloat 0.5 | Some x \<Rightarrow> x)\<rparr>)
          \<and> (\<forall>e'. py_sub ar b' a = Inl e' \<longrightarrow> remote_segment ar (JObj ikvs) = Inl e'))
   \<and> (py_sub ar q p = Inl e \<longleftrightarrow>
        e = OverflowError
        \<and> ((\<exists>m y. q = PInt m \<and> p = PFloat y \<and> int_to_float ar m = None)
           \<or> (\<exists>x n. q = PFloat x \<and> p = PInt n \<and> int_to_float ar n = None)))"
proof -
  have high: "detect_high_action_segments ar cfg cv api v (Some d)
      = detect_segments_with_api ar cfg cv api v d" for api
    using assms by (simp add: detect_high_action_segments_def)
  have c1: "detect_high_action_segments ar cfg cv (Response status_code b) v (Some d)
          = detect_segments_with_motion ar cfg cv v d" if "status_code \<noteq> 200"
    using that by (simp add: high detect_segments_with_api_cases)
  have c2: "detect_high_action_segments ar cfg cv (Response 200 b) v (Some d)
          = detect_segments_with_motion ar cfg cv v d" if "parse_response ar b = Inl e"
    using that by (simp add: high detect_segments_with_api_cases)
  have c3: "detect_high_action_segments ar cfg cv (Response 200 b) v (Some d) = Inr segs"
    if "parse_response ar b = Inr segs"
    using that by (simp add: high detect_segments_with_api_cases)
  have c4: "parse_response ar Not_json = Inl JSONDecodeError"
    by (simp add: parse_response_def)
  have c5: "parse_response ar (Json j) = Inl AttributeError" if "\<forall>kvs. j \<noteq> JObj kvs"
    using that by (cases j) (simp_all add: parse_response_def dict_get_def)
  have c6: "parse_response ar (Json (JObj kvs)) = Inl e"
    if "dict_lookup kvs ''segments'' = Some j \<and> iter_items j = Inl e"
    using that by (simp add: parse_response_def dict_get_def)
  have c7: "\<exists>e'. parse_response ar (Json (JObj kvs)) = Inl e'"
    if a: "dict_lookup kvs ''segments'' = Some (JArr items) \<and> item \<in> set items
        \<and> \<not> (\<exists>ikvs st en a b' dur. item = JObj ikvs
               \<and> dict_lookup ikvs ''start_time'' = Some st \<and> json_number st = Some a
               \<and> dict_lookup ikvs ''end_time'' = Some en \<and> json_number en = Some b'
               \<and> py_sub ar b' a = Inr dur)"
  proof -
    from a have "\<not> (\<exists>s. remote_segment ar item = Inr s)"
      unfolding remote_segment_Inr_iff by blast
    then obtain e0 where "remote_segment ar item = Inl e0"
      by (cases "remote_segment ar item") auto
    with a remote_segments_item_fails obtain e' where "remote_segments ar items = Inl e'"
      by blast
    with a show ?thesis by (simp add: parse_response_items)
  qed
  have c8: "length segs = length items
          \<and> (\<forall>k < length items. remote_segment ar (items ! k) = Inr (segs ! k))"
    if a: "dict_lookup kvs ''segments'' = Some (JArr items)
        \<and> parse_response ar (Json (JObj kvs)) = Inr segs"
  proof -
    from a have "remote_segments ar items = Inr segs"
      using parse_response_items [of kvs items ar] by auto
    from remote_segments_all_or_nothing [OF this] show ?thesis .
  qed
  have c9: "parse_response ar (Json (JObj kvs)) = Inr []"
    if "dict_lookup kvs ''segments'' = None"
    using that by (simp add: parse_response_def dict_get_def iter_items_def)
  have c10: "remote_segment ar (JObj ikvs) =
                 Inr \<lparr>seg_start = num_value a, seg_end = num_value b',
                      seg_duration = num_value dur,
                      seg_score = (case dict_lookup ikvs ''action_score'' of
                                     None \<Rightarrow> JFloat 0.5 | Some x \<Rightarrow> x),
                      seg_confidence = (case dict_lookup ikvs ''confidence'' of
                                     None \<Rightarrow> JFloat 0.5 | Some x \<Rightarrow> x)\<rparr>"
    if "dict_lookup ikvs ''start_time'' = Some st \<and> json_number st = Some a
        \<and> dict_lookup ikvs ''end_time'' = Some en \<and> json_number en = Some b'"
      "py_sub ar b' a = Inr dur" for dur
    unfolding remote_segment_Inr_iff using that by simp
  have c11: "remote_segment ar (JObj ikvs) = Inl e'"
    if "dict_lookup ikvs ''start_time'' = Some st \<and> json_number st = Some a
        \<and> dict_lookup ikvs ''end_time'' = Some en \<and> json_number en = Some b'"
      "py_sub ar b' a = Inl e'" for e'
    using that by (intro remote_segment_sub_fails [where st = st and en = en]) simp_all
  show ?thesis
    apply (intro conjI impI allI)
    subgoal by (rule c1)
    subgoal by (rule c2)
    subgoal by (rule c3)
    subgoal by (rule c4)
    subgoal by (rule c5)
    subgoal by (rule c6)
    subgoal by (rule c7)
    subgoal by (rule c8 [THEN conjunct1])
    subgoal for k using c8 by blast
    subgoal by (rule c9)
    subgoal for dur by (rule c10)
    subgoal for e' by (rule c11)
    subgoal by (rule py_sub_Inl_iff)
    done
qed

theorem remote_failure_or_complete_parse_witness:
  "use_clipping_api remote_config \<and> key_present remote_config
   \<and> parse_response exact_arith broken_body = Inl KeyError
   \<and> detect_high_action_segments exact_arith remote_config example_vision
        (Response 200 broken_body) example_video (Some 2)
      = Inr (map as_json_segment example_segments)
   \<and> (404 :: int) \<noteq> 200
   \<and> detect_high_action_segments exact_arith remote_config example_vision
        (Response 404 partial_body) example_video (Some 2)
      = Inr (map as_json_segment example_segments)
   \<and> py_sub bounded_arith (PInt (2 ^ 1024)) (PFloat 0.5) = Inl OverflowError
   \<and> parse_response bounded_arith overflow_body = Inl OverflowError
   \<and> detect_high_action_segments bounded_arith remote_config example_vision
        (Response 200 overflow_body) example_video (Some 2)
      = detect_segments_with_motion bounded_arith remote_config example_vision
          example_video 2"
proof -
  have broken: "parse_response exact_arith broken_body = Inl KeyError"
    by (simp add: broken_body_def parse_response_def dict_get_def dict_lookup_def
        iter_items_def remote_segment_def getitem_def json_number_def py_sub_def)
  note inst = remote_failure_or_complete_parse [OF remote_config_selected,
      where cv = example_vision and v = example_video and d = 2]
  have "detect_high_action_segments exact_arith remote_config example_vision
        (Response 200 broken_body) example_video (Some 2)
      = detect_segments_with_motion exact_arith remote_config example_vision example_video 2"
    using inst [where ar = exact_arith and b = broken_body and e = KeyError] broken by blast
  moreover have "detect_high_action_segments exact_arith remote_config example_vision
        (Response 404 partial_body) example_video (Some 2)
      = detect_segments_with_motion exact_arith remote_config example_vision example_video 2"
    using inst [where ar = exact_arith and b = partial_body and status_code = 404] by simp
  moreover have sub: "py_sub bounded_arith (PInt (2 ^ 1024)) (PFloat 0.5) = Inl OverflowError"
    by (simp add: py_sub_def bounded_arith_def)
  moreover have over: "parse_response bounded_arith overflow_body = Inl OverflowError"
    using sub
    by (simp add: overflow_body_def parse_response_def dict_get_def dict_lookup_def
        iter_items_def remote_segment_def getitem_def json_number_def)
  moreover have "detect_high_action_segments bounded_arith remote_config example_vision
        (Response 200 overflow_body) example_video (Some 2)
      = detect_segments_with_motion bounded_arith remote_config example_vision
          example_video 2"
    using inst [where ar = bounded_arith and b = overflow_body and e = OverflowError] over
    by blast
  ultimately show ?thesis
    using remote_config_selected remote_config_local broken by simp
qed

text \<open>
  C9 as stated fails. The body \<open>partial_body\<close> has status 200; its only item carries a
  string as \<open>action_score\<close> and no \<open>confidence\<close>. The engine does not fall back: it
  returns one segment built from that item, with the string as score and 0.5 as
  confidence, where the local pipeline finds two segments in the video.
\<close>

theorem partial_body_counterexample:
  "detect_high_action_segments exact_arith remote_config example_vision
      (Response 200 partial_body) example_video None
     = Inr [\<lparr>seg_start = 0, seg_end = 10, seg_duration = 10,
             seg_score = JStr ''high'', seg_confidence = JFloat 0.5\<rparr>]
   \<and> detect_segments_with_motion exact_arith remote_config example_vision example_video 2
     = Inr (map as_json_segment example_segments)
   \<and> detect_high_action_segments exact_arith remote_config example_vision
      (Response 200 partial_body) example_video None
     \<noteq> detect_segments_with_motion exact_arith remote_config example_vision example_video 2"
proof -
  have parse: "parse_response exact_arith partial_body
     = Inr [\<lparr>seg_start = 0, seg_end = 10, seg_duration = 10,
             seg_score = JStr ''high'', seg_confidence = JFloat 0.5\<rparr>]"
    by (simp add: partial_body_def parse_response_def dict_get_def dict_lookup_def
        iter_items_def remote_segment_def getitem_def json_number_def py_sub_def
        num_value_def)
  have "detect_high_action_segments exact_arith remote_config example_vision
      (Response 200 partial_body) example_video None
     = Inr [\<lparr>seg_start = 0, seg_end = 10, seg_duration = 10,
             seg_score = JStr ''high'', seg_confidence = JFloat 0.5\<rparr>]"
    using remote_config_selected
    by (simp add: detect_high_action_segments_def detect_segments_with_api_cases parse)
  then show ?thesis
    by (simp add: remote_config_local example_segments_def)
qed

lemma no_two_overlap_as_json:
  "no_two_overlap (map as_json_segment segs) = no_two_overlap segs"
  by (induction segs) (auto simp: list_all_iff time_overlap_def as_json_segment_def)

lemma extract_segments_no_overlap:
  assumes "extract_segments_from_scores ar cfg motion_scores rate d = Inr segs"
  shows "no_two_overlap segs"
proof (cases "motion_scores = []")
  case True
  with assms show ?thesis by (simp add: extract_segments_from_scores_def)
next
  case False
  with assms obtain xs where "segs = remove_overlapping_segments xs"
    by (auto simp: extract_segments_from_scores_def Let_def split: sum.splits)
  then show ?thesis by (simp add: remove_overlapping_segments_no_overlap)
qed

lemma detect_segments_with_motion_no_overlap:
  assumes "detect_segments_with_motion ar cfg cv v d = Inr segs"
  shows "no_two_overlap segs"
proof (cases "motion_pipeline ar cfg cv v d")
  case (Inl e)
  with assms show ?thesis by (simp add: detect_segments_with_motion_def)
next
  case (Inr local)
  with assms have segs: "segs = map as_json_segment local"
    by (simp add: detect_segments_with_motion_def)
  have "no_two_overlap local"
  proof (cases "local = []")
    case True
    then show ?thesis by simp
  next
    case False
    then obtain s where "s \<in> set local" by (cases local) auto
    from motion_pipeline_mem [OF Inr this] extract_segments_no_overlap
    show ?thesis by blast
  qed
  with segs show ?thesis by (simp add: no_two_overlap_as_json)
qed

text \<open>
  C1, as amended. In every segment sequence that the local (motion) path returns,
  whether that path was selected directly or reached by fallback from the remote one,
  no two segments at different positions overlap under the half-open interval test.
  On the remote path the segments of a response that parses are returned as they are,
  without overlap resolution.
\<close>

theorem local_segments_never_overlap:
  "(detect_segments_with_motion ar cfg cv v d = Inr segs \<longrightarrow>
      (\<forall>i < length segs. \<forall>j < length segs. i \<noteq> j \<longrightarrow>
         \<not> time_overlap (segs ! i) (segs ! j)))
   \<and> (detect_high_action_segments ar cfg cv api v segment_duration_arg = Inr segs
       \<and> \<not> (use_clipping_api cfg \<and> key_present cfg
             \<and> (\<exists>b. api = Response 200 b \<and> parse_response ar b = Inr segs))
      \<longrightarrow> (\<forall>i < length segs. \<forall>j < length segs. i \<noteq> j \<longrightarrow>
             \<not> time_overlap (segs ! i) (segs ! j)))
   \<and> (use_clipping_api cfg \<and> key_present cfg \<and> parse_response ar b = Inr segs \<longrightarrow>
        detect_high_action_segments ar cfg cv (Response 200 b) v segment_duration_arg = Inr segs)"
proof (intro conjI impI)
  assume "detect_segments_with_motion ar cfg cv v d = Inr segs"
  then have "no_two_overlap segs" by (rule detect_segments_with_motion_no_overlap)
  then show "\<forall>i < length segs. \<forall>j < length segs. i \<noteq> j \<longrightarrow>
         \<not> time_overlap (segs ! i) (segs ! j)"
    using no_two_overlap_nth by blast
next
  let ?d = "case segment_duration_arg of None \<Rightarrow> TARGET_CLIP_LENGTH cfg | Some d \<Rightarrow> d"
  assume a: "detect_high_action_segments ar cfg cv api v segment_duration_arg = Inr segs
       \<and> \<not> (use_clipping_api cfg \<and> key_present cfg
             \<and> (\<exists>b. api = Response 200 b \<and> parse_response ar b = Inr segs))"
  have "detect_segments_with_motion ar cfg cv v ?d = Inr segs"
  proof (cases "use_clipping_api cfg \<and> key_present cfg")
    case False
    with a show ?thesis by (auto simp: detect_high_action_segments_def)
  next
    case True
    with a have api: "detect_segments_with_api ar cfg cv api v ?d = Inr segs"
      by (simp add: detect_high_action_segments_def)
    from True a have no: "\<And>b. api = Response 200 b \<Longrightarrow> parse_response ar b \<noteq> Inr segs"
      by blast
    show ?thesis
    proof (cases api)
      case (Request_raises e)
      with api show ?thesis by (simp add: detect_segments_with_api_cases)
    next
      case (Response status_code b)
      show ?thesis
      proof (cases "status_code = 200")
        case False
        with api Response show ?thesis by (simp add: detect_segments_with_api_cases)
      next
        case True
        with Response no have "parse_response ar b \<noteq> Inr segs" by simp
        with api Response True show ?thesis
          by (cases "parse_response ar b") (simp_all add: detect_segments_with_api_cases)
      qed
    qed
  qed
  then have "no_two_overlap segs" by (rule detect_segments_with_motion_no_overlap)
  then show "\<forall>i < length segs. \<forall>j < length segs. i \<noteq> j \<longrightarrow>
         \<not> time_overlap (segs ! i) (segs ! j)"
    using no_two_overlap_nth by blast
next
  assume "use_clipping_api cfg \<and> key_present cfg \<and> parse_response ar b = Inr segs"
  then show "detect_high_action_segments ar cfg cv (Response 200 b) v segment_duration_arg
      = Inr segs"
    by (simp add: detect_high_action_segments_def detect_segments_with_api_cases)
qed

theorem local_segments_never_overlap_witness:
  "detect_segments_with_motion exact_arith remote_config example_vision example_video 2
     = Inr (map as_json_segment example_segments)
   \<and> length (map as_json_segment example_segments) = 2
   \<and> \<not> time_overlap (map as_json_segment example_segments ! 0)
         (map as_json_segment example_segments ! 1)
   \<and> detect_high_action_segments exact_arith remote_config example_vision
        (Response 200 overlapping_body)         example_video None
      = Inr [\<lparr>seg_start = 0, seg_end = 10, seg_duration = 10,
              seg_score = JFloat 0.75, seg_confidence = JFloat 0.5\<rparr>,
             \<lparr>seg_start = 5, seg_end = 15, seg_duration = 10,
              seg_score = JFloat 0.5, seg_confidence = JFloat 0.25\<rparr>]"
proof -
  have len: "length (map as_json_segment example_segments) = 2"
    by (simp add: example_segments_def)
  have parse: "parse_response exact_arith overlapping_body
      = Inr [\<lparr>seg_start = 0, seg_end = 10, seg_duration = 10,
              seg_score = JFloat 0.75, seg_confidence = JFloat 0.5\<rparr>,
             \<lparr>seg_start = 5, seg_end = 15, seg_duration = 10,
              seg_score = JFloat 0.5, seg_confidence = JFloat 0.25\<rparr>]"
    by (simp add: overlapping_body_def parse_response_def dict_get_def dict_lookup_def
        iter_items_def remote_segment_def getitem_def json_number_def py_sub_def
        num_value_def)
  note inst = local_segments_never_overlap [where ar = exact_arith and cfg = remote_config
      and cv = example_vision and v = example_video and d = 2 and b = overlapping_body
      and segment_duration_arg = None]
  from inst [where segs = "map as_json_segment example_segments"] remote_config_local
  have "\<forall>i < length (map as_json_segment example_segments).
      \<forall>j < length (map as_json_segment example_segments). i \<noteq> j \<longrightarrow>
         \<not> time_overlap (map as_json_segment example_segments ! i)
             (map as_json_segment example_segments ! j)"
    by blast
  then have "\<not> time_overlap (map as_json_segment example_segments ! 0)
         (map as_json_segment example_segments ! 1)"
    unfolding len by simp
  moreover have "detect_high_action_segments exact_arith remote_config example_vision
      (Response 200 overlapping_body) example_video None
      = Inr [\<lparr>seg_start = 0, seg_end = 10, seg_duration = 10,
              seg_score = JFloat 0.75, seg_confidence = JFloat 0.5\<rparr>,
             \<lparr>seg_start = 5, seg_end = 15, seg_duration = 10,
              seg_score = JFloat 0.5, seg_confidence = JFloat 0.25\<rparr>]"
    using inst remote_config_selected parse by blast
  ultimately show ?thesis using remote_config_local len by blast
qed

text \<open>
  C1 as stated fails on the remote path. The response \<open>overlapping_body\<close> has status
  200 and two items, \<open>[0, 10]\<close> and \<open>[5, 15]\<close>; both are returned, and they overlap.
\<close>

theorem remote_overlap_counterexample:
  "detect_high_action_segments exact_arith remote_config example_vision
        (Response 200 overlapping_body)       example_video None
     = Inr [\<lparr>seg_start = 0, seg_end = 10, seg_duration = 10,
             seg_score = JFloat 0.75, seg_confidence = JFloat 0.5\<rparr>,
            \<lparr>seg_start = 5, seg_end = 15, seg_duration = 10,
             seg_score = JFloat 0.5, seg_confidence = JFloat 0.25\<rparr>]
   \<and> time_overlap
        \<lparr>seg_start = 0, seg_end = 10, seg_duration = 10,
          seg_score = JFloat 0.75, seg_confidence = JFloat 0.5\<rparr>
        \<lparr>seg_start = 5, seg_end = 15, seg_duration = 10,
          seg_score = JFloat 0.5, seg_confidence = JFloat 0.25\<rparr>
   \<and> \<not> no_two_overlap
        [\<lparr>seg_start = 0, seg_end = 10, seg_duration = 10,
           seg_score = JFloat 0.75, seg_confidence = JFloat 0.5\<rparr>,
         \<lparr>seg_start = 5, seg_end = 15, seg_duration = 10,
           seg_score = JFloat 0.5, seg_confidence = JFloat 0.25\<rparr>]"
proof -
  have parse: "parse_response exact_arith overlapping_body
      = Inr [\<lparr>seg_start = 0, seg_end = 10, seg_duration = 10,
              seg_score = JFloat 0.75, seg_confidence = JFloat 0.5\<rparr>,
             \<lparr>seg_start = 5, seg_end = 15, seg_duration = 10,
              seg_score = JFloat 0.5, seg_confidence = JFloat 0.25\<rparr>]"
    by (simp add: overlapping_body_def parse_response_def dict_get_def dict_lookup_def
        iter_items_def remote_segment_def getitem_def json_number_def py_sub_def
        num_value_def)
  have "detect_high_action_segments exact_arith remote_config example_vision
      (Response 200 overlapping_body) example_video None
     = Inr [\<lparr>seg_start = 0, seg_end = 10, seg_duration = 10,
             seg_score = JFloat 0.75, seg_confidence = JFloat 0.5\<rparr>,
            \<lparr>seg_start = 5, seg_end = 15, seg_duration = 10,
             seg_score = JFloat 0.5, seg_confidence = JFloat 0.25\<rparr>]"
    using remote_config_selected
    by (simp add: detect_high_action_segments_def detect_segments_with_api_cases parse)
  then show ?thesis by (simp add: time_overlap_def)
qed

end
